theory Spec2Isabelle
  imports Main "HOL-Library.Sublist" "HOL-Library.List_Lexorder" "HOL-Library.Char_ord"
    "HOL-Library.Option_ord"
begin

section \<open>JavaScript values, errors and strings\<close>

text \<open>
  The handlers of \<^verbatim>\<open>src/controllers/takeoffController.js\<close> and the middleware of
  \<^verbatim>\<open>src/middleware/auth.js\<close> are embedded as HOL functions. Strings are character
  lists; a value that may be \<^verbatim>\<open>undefined\<close> is an \<open>option\<close>. An exception is a
  value of \<open>js_error\<close>: the handlers only look at the name \<^verbatim>\<open>ValidationError\<close>
  (with its field messages) and otherwise at the message.
\<close>

datatype jsval =
    JUndefined
  | JNull
  | JBool bool
  | JNum int
  | JStr string
  | JArr "jsval list"
  | JObj "(string \<times> jsval) list"

datatype js_error =
    ValidationError string "string list"
  | OtherError string

fun message :: "js_error \<Rightarrow> string" where
  "message (ValidationError msg errors) = msg"
| "message (OtherError msg) = msg"

text \<open>\<^verbatim>\<open>s.split(sep)\<close> for a separator of one character: every occurrence splits,
  so two adjacent separators give an empty segment and the result is never empty.\<close>

fun split :: "char \<Rightarrow> string \<Rightarrow> string list" where
  "split sep [] = [[]]"
| "split sep (c # cs) =
     (if c = sep then [] # split sep cs
      else (case split sep cs of
              w # ws \<Rightarrow> (c # w) # ws
            | [] \<Rightarrow> [[c]]))"

text \<open>\<^verbatim>\<open>xs[i]\<close> on an array: \<^verbatim>\<open>undefined\<close> out of range.\<close>

fun js_index :: "'a list \<Rightarrow> nat \<Rightarrow> 'a option" where
  "js_index [] i = None"
| "js_index (x # xs) 0 = Some x"
| "js_index (x # xs) (Suc i) = js_index xs i"

text \<open>Truthiness of a value that is a string or \<^verbatim>\<open>undefined\<close>: the empty string
  and \<^verbatim>\<open>undefined\<close> are falsy.\<close>

definition truthy :: "string option \<Rightarrow> bool" where
  "truthy v = (case v of None \<Rightarrow> False | Some s \<Rightarrow> s \<noteq> [])"

section \<open>The data model\<close>

text \<open>
  Modelled from the spec: the schema \<^verbatim>\<open>models/Takeoff\<close>, which is not among the
  sources. A Listing Record has the fields of section 3 of the spec and those the
  handlers read and write; \<^verbatim>\<open>features\<close>, \<^verbatim>\<open>specifications\<close> and \<^verbatim>\<open>tags\<close> are
  free-form values, stored as they are constructed. A scalar field that a document may
  lack is an \<open>option\<close>; prices are integers and dates are numbers. What the schema
  accepts of the other fields is a parameter (\<open>save_check\<close> and \<open>update_check\<close>
  below), and a text field is stored as it was supplied. An Attachment is as the handlers
  build it; a document read from the store may lack a remote id, which is what the guard
  \<^verbatim>\<open>if (file.cloudinaryPublicId)\<close> of \<^verbatim>\<open>deleteTakeoff\<close> provides for.
\<close>

record attachment =
  filename :: string
  originalName :: string
  size_att :: nat
  cloudinaryPublicId :: "string option"
  cloudinaryUrl :: "string option"
  resourceType :: string
  uploadDate :: nat
  firstPagePreviewUrl :: "string option"
  isPdf :: bool

record user_public =
  user_id :: string
  email :: string
  firstName :: string
  lastName :: string

datatype creator = NoCreator | CreatorRef string | CreatorDoc user_public

record takeoff =
  takeoff_id :: string
  title :: "string option"
  description :: "string option"
  projectType :: "string option"
  projectSize :: "string option"
  zipCode :: "string option"
  address :: "string option"
  price :: "int option"
  features :: jsval
  specifications :: jsval
  tags :: jsval
  isActive :: "bool option"
  expirationDate :: "nat option"
  createdBy :: creator
  createdAt :: nat
  updatedAt :: nat
  files :: "attachment list"
  pdfPreview :: "attachment list"

text \<open>The document store: the collection in its natural order, and the public
  fields of the users that \<^verbatim>\<open>populate\<close> expands a creator reference to.\<close>

record store =
  takeoffs :: "takeoff list"
  users :: "user_public list"

datatype body =
    FailBody string
  | ErrorBody string
  | ErrorsBody "string list"
  | MessageBody string
  | TakeoffBody takeoff
  | TakeoffsBody "takeoff list"

record response =
  status :: nat
  body :: body

section \<open>The auth middleware\<close>

record claims =
  userId :: string
  role :: "string option"

datatype auth_result = Respond response | Continue claims

text \<open>The only call to the outside is \<^verbatim>\<open>jwt.verify(token, process.env.JWT_SECRET)\<close>;
  it is a parameter, and the tokens handed to it are returned beside the outcome.
  \<^verbatim>\<open>authHeader && authHeader.split(' ')[1]\<close> is the header itself when the header is
  falsy, the second segment otherwise. \<open>Continue\<close> stands for \<^verbatim>\<open>req.user = decoded\<close>
  followed by \<^verbatim>\<open>next()\<close>; the handlers that run after it are not part of the
  middleware.\<close>

definition token_of :: "string option \<Rightarrow> string option" where
  "token_of authHeader =
     (if truthy authHeader then js_index (split CHR '' '' (the authHeader)) 1
      else authHeader)"

definition auth ::
  "(string \<Rightarrow> string option \<Rightarrow> js_error + claims) \<Rightarrow> string option \<Rightarrow> string option
     \<Rightarrow> auth_result \<times> string list" where
  "auth jwt_verify JWT_SECRET authHeader =
     (let token = token_of authHeader in
      if \<not> truthy token then
        (Respond \<lparr>status = 401, body = FailBody ''No token, authorization denied''\<rparr>, [])
      else
        (case jwt_verify (the token) JWT_SECRET of
           Inr decoded \<Rightarrow> (Continue decoded, [the token])
         | Inl err \<Rightarrow>
             (Respond \<lparr>status = 401, body = FailBody ''Token is not valid''\<rparr>, [the token])))"

definition adminOnly :: "claims option \<Rightarrow> auth_result option" where
  "adminOnly user =
     (case user of
        None \<Rightarrow> Some (Respond \<lparr>status = 403, body = FailBody ''Admin access required''\<rparr>)
      | Some u \<Rightarrow>
          (if role u \<noteq> Some ''admin''
           then Some (Respond \<lparr>status = 403, body = FailBody ''Admin access required''\<rparr>)
           else None))"

text \<open>A verifier for the examples: it accepts one token.\<close>

definition demo_verify :: "string \<Rightarrow> string option \<Rightarrow> js_error + claims" where
  "demo_verify token secret =
     (if token = ''good'' \<and> secret = Some ''s3cret''
      then Inr \<lparr>userId = ''u1'', role = Some ''admin''\<rparr>
      else Inl (OtherError ''invalid signature''))"

section \<open>Printing a number\<close>

text \<open>The decimal text of a number, as a template literal prints \<^verbatim>\<open>Date.now()\<close>.\<close>

function string_of_nat :: "nat \<Rightarrow> string" where
  "string_of_nat n =
     (if n < 10 then [char_of (48 + n)]
      else string_of_nat (n div 10) @ [char_of (48 + n mod 10)])"
  by pat_completeness auto
termination
  by (relation "measure id") auto

declare string_of_nat.simps [simp del]

section \<open>The outside world\<close>

text \<open>
  The handlers call the media service (through \<^verbatim>\<open>utils/cloudinary\<close>, not among the
  sources), the PDF renderer, the file system, the clock and the document store. What
  these answer is a parameter of the model (the record \<open>env\<close>): each answer depends
  on the arguments of the call only, and the clock is read once for a request. Every
  call that acts on the outside is recorded, in order, as an \<open>event\<close>. A computation
  returns its result or the exception it raised, and the events so far.

  Three operations on text are parameters as well, because what they compute is fixed by
  the Unicode tables of the runtime and by the expression engine of the store, not by the
  handlers: \<^verbatim>\<open>String.prototype.toLowerCase\<close>, \<^verbatim>\<open>String.prototype.trim\<close>, and the
  regular expressions of the store. \<open>regex_of e pattern options\<close> is the test
  \<^emph>\<open>the expression matches somewhere in this text\<close>, or the error with which the store
  refuses the pattern. Every statement below holds for whatever these three are.
\<close>

record upload_result =
  public_id :: string
  secure_url :: string

text \<open>What the renderer resolves \<^verbatim>\<open>convert(1)\<close> with. The library \<^verbatim>\<open>pdf2pic\<close>
  documents one object for the page (\<open>OnePage\<close>); \<open>Pages\<close> is an array of such
  objects, which is what the test \<^verbatim>\<open>pageData.length > 0\<close> and the access
  \<^verbatim>\<open>pageData[0].name\<close> of the handler read; \<open>NoPages\<close> is \<^verbatim>\<open>null\<close> or
  \<^verbatim>\<open>undefined\<close>. A page object carries no property \<^verbatim>\<open>length\<close>.\<close>

record page =
  page_name :: "string option"

datatype page_data = NoPages | OnePage page | Pages "page list"

record multer_file =
  originalname :: string
  mimetype :: string
  size_file :: nat
  path :: "string option"
  filename_file :: "string option"
  buffer :: "string option"

record req_files =
  files_field :: "multer_file list option"
  pdfPreview_field :: "multer_file list option"

record req_body =
  title_b :: "string option"
  description_b :: "string option"
  projectType_b :: "string option"
  projectSize_b :: "string option"
  zipCode_b :: "string option"
  address_b :: "string option"
  price_b :: "int option"
  features_b :: jsval
  specifications_b :: jsval
  tags_b :: jsval
  isActive_b :: "bool option"
  expirationDate_b :: "nat option"
  createdBy_b :: "string option"

text \<open>The update document handed to \<^verbatim>\<open>findByIdAndUpdate\<close>: the scalar fields
  (set when supplied) and the two \<^verbatim>\<open>$push\<close> \<^verbatim>\<open>$each\<close> lists. The handler adds a
  \<^verbatim>\<open>$push\<close> entry only for a non-empty list; pushing no element changes nothing, so
  the lists are kept as they are.\<close>

record update_doc =
  title_u :: "string option"
  description_u :: "string option"
  projectType_u :: "string option"
  projectSize_u :: "string option"
  zipCode_u :: "string option"
  address_u :: "string option"
  price_u :: "int option"
  features_u :: jsval
  specifications_u :: jsval
  tags_u :: jsval
  expirationDate_u :: "nat option"
  isActive_u :: "bool option"
  updatedAt_u :: nat
  push_files :: "attachment list"
  push_pdfPreview :: "attachment list"

record env =
  isServerless :: bool
  dirname :: string
  now :: nat
  new_ObjectId :: string
  fs_existsSync :: "string \<Rightarrow> bool"
  path_isAbsolute :: "string \<Rightarrow> bool"
  path_join :: "string list \<Rightarrow> string"
  path_dirname :: "string \<Rightarrow> string"
  cloudinary_upload :: "string \<Rightarrow> string \<Rightarrow> string \<Rightarrow> js_error + upload_result"
  cloudinary_upload_stream ::
    "string option \<Rightarrow> string \<Rightarrow> string \<Rightarrow> string \<Rightarrow> js_error + upload_result"
  cloudinary_destroy :: "string \<Rightarrow> string \<Rightarrow> js_error option"
  pdf_convert :: "string \<Rightarrow> string \<Rightarrow> js_error + page_data"
  JSON_parse :: "string \<Rightarrow> js_error + jsval"
  save_check :: "takeoff \<Rightarrow> js_error option"
  update_check :: "update_doc \<Rightarrow> js_error option"
  toLowerCase :: "string \<Rightarrow> string"
  trim :: "string \<Rightarrow> string"
  regex_of :: "string \<Rightarrow> string \<Rightarrow> js_error + (string \<Rightarrow> bool)"

datatype event =
    Upload string string string
  | UploadStream "string option" string string string
  | Destroy string string
  | Convert string string
  | Unlink string
  | Save string
  | FindByIdAndUpdate string
  | DeleteOne string

type_synonym 'a io = "(js_error + 'a) \<times> event list"

definition io_return :: "'a \<Rightarrow> 'a io" where
  "io_return x = (Inr x, [])"

definition io_throw :: "js_error \<Rightarrow> 'a io" where
  "io_throw e = (Inl e, [])"

definition io_bind :: "'a io \<Rightarrow> ('a \<Rightarrow> 'b io) \<Rightarrow> 'b io" where
  "io_bind m f =
     (case m of
        (Inl e, tr) \<Rightarrow> (Inl e, tr)
      | (Inr x, tr) \<Rightarrow> (case f x of (r, tr') \<Rightarrow> (r, tr @ tr')))"

definition io_catch :: "'a io \<Rightarrow> (js_error \<Rightarrow> 'a io) \<Rightarrow> 'a io" where
  "io_catch m h =
     (case m of
        (Inl e, tr) \<Rightarrow> (case h e of (r, tr') \<Rightarrow> (r, tr @ tr'))
      | (Inr x, tr) \<Rightarrow> (Inr x, tr))"

text \<open>A \<^verbatim>\<open>for ... of\<close> loop that awaits each step and collects the results: the first
  exception ends the loop.\<close>

fun io_each :: "('a \<Rightarrow> 'b io) \<Rightarrow> 'a list \<Rightarrow> 'b list io" where
  "io_each f [] = io_return []"
| "io_each f (x # xs) =
     io_bind (f x) (\<lambda>y. io_bind (io_each f xs) (\<lambda>ys. io_return (y # ys)))"

section \<open>The helpers of the controller\<close>

text \<open>\<^verbatim>\<open>uploadToCloudinary\<close> and \<^verbatim>\<open>uploadBufferToCloudinary\<close>: their
  \<^verbatim>\<open>catch\<close> logs and throws the same error again, so the exception of the body is the
  exception of the helper. The resource type and the folder default to \<^verbatim>\<open>raw\<close> and
  \<^verbatim>\<open>takeoffs\<close>; the callers below pass them in full.\<close>

definition uploadToCloudinary :: "env \<Rightarrow> string \<Rightarrow> string \<Rightarrow> string \<Rightarrow> upload_result io" where
  "uploadToCloudinary e filePath rtype folder =
     (if \<not> isServerless e \<and> \<not> fs_existsSync e filePath
      then io_throw (OtherError (''File not found: '' @ filePath))
      else (cloudinary_upload e filePath rtype folder, [Upload filePath rtype folder]))"

definition uploadBufferToCloudinary ::
  "env \<Rightarrow> string option \<Rightarrow> string \<Rightarrow> string \<Rightarrow> string \<Rightarrow> upload_result io" where
  "uploadBufferToCloudinary e buf name rtype folder =
     (let pid = string_of_nat (now e) @ ''-'' @ name in
      (cloudinary_upload_stream e buf rtype folder pid, [UploadStream buf rtype folder pid]))"

text \<open>\<^verbatim>\<open>generatePdfPreview\<close>: the body may raise, in the renderer or in
  \<^verbatim>\<open>path.join\<close> when the first page has no name; the \<^verbatim>\<open>catch\<close> turns every
  exception into \<^verbatim>\<open>null\<close>. The condition \<^verbatim>\<open>pageData && pageData.length > 0\<close> holds
  for a non-empty array only: \<^verbatim>\<open>null\<close> is falsy, and the \<^verbatim>\<open>length\<close> of a single
  page object is \<^verbatim>\<open>undefined\<close>, which is not greater than 0.\<close>

definition generatePdfPreview_try :: "env \<Rightarrow> string \<Rightarrow> string \<Rightarrow> string option io" where
  "generatePdfPreview_try e pdfPath outputPath =
     (if \<not> isServerless e \<and> \<not> fs_existsSync e pdfPath then io_return None
      else
        io_bind (pdf_convert e pdfPath (path_dirname e outputPath),
                 [Convert pdfPath (path_dirname e outputPath)])
          (\<lambda>pageData.
             case pageData of
               Pages (p # ps) \<Rightarrow>
                 (case page_name p of
                    None \<Rightarrow> io_throw (OtherError ''The path argument must be of type string'')
                  | Some n \<Rightarrow> io_return (Some (path_join e [path_dirname e outputPath, n])))
             | Pages [] \<Rightarrow> io_return None
             | OnePage p \<Rightarrow> io_return None
             | NoPages \<Rightarrow> io_return None))"

definition generatePdfPreview :: "env \<Rightarrow> string \<Rightarrow> string \<Rightarrow> string option io" where
  "generatePdfPreview e pdfPath outputPath =
     io_catch (generatePdfPreview_try e pdfPath outputPath) (\<lambda>error. io_return None)"

definition generatePdfPreviewFromBuffer :: "env \<Rightarrow> string option \<Rightarrow> string \<Rightarrow> string option io" where
  "generatePdfPreviewFromBuffer e buf name =
     io_catch (io_return None) (\<lambda>error. io_return None)"

text \<open>\<^verbatim>\<open>safeDeleteFile\<close>: a failing \<^verbatim>\<open>unlinkSync\<close> is logged and nothing more.\<close>

definition safeDeleteFile :: "env \<Rightarrow> string \<Rightarrow> unit io" where
  "safeDeleteFile e filePath =
     (if \<not> isServerless e \<and> fs_existsSync e filePath then (Inr (), [Unlink filePath])
      else io_return ())"

section \<open>Processing the attached files\<close>

text \<open>
  The two loops over \<^verbatim>\<open>req.files.files\<close> and \<^verbatim>\<open>req.files.pdfPreview\<close> are written
  out twice in the source, in \<^verbatim>\<open>createTakeoff\<close> and in \<^verbatim>\<open>updateTakeoff\<close>, with the
  same statements apart from logging; each loop body is one function here. The
  \<^verbatim>\<open>catch\<close> around a loop body logs and throws again.
\<close>

text \<open>\<^verbatim>\<open>path.isAbsolute(file.path) ? file.path : path.join(__dirname, '..', file.path)\<close>;
  \<^verbatim>\<open>path.isAbsolute\<close> raises a TypeError on \<^verbatim>\<open>undefined\<close>.\<close>

definition local_path :: "env \<Rightarrow> multer_file \<Rightarrow> string io" where
  "local_path e file =
     (case path file of
        None \<Rightarrow> io_throw (OtherError ''The path argument must be of type string'')
      | Some p \<Rightarrow>
          io_return (if path_isAbsolute e p then p else path_join e [dirname e, ''..'', p]))"

definition new_attachment ::
  "env \<Rightarrow> multer_file \<Rightarrow> upload_result \<Rightarrow> string option \<Rightarrow> bool \<Rightarrow> attachment" where
  "new_attachment e file result preview pdf =
     \<lparr>filename =
        (if truthy (filename_file file) then the (filename_file file)
         else string_of_nat (now e) @ ''-'' @ originalname file),
      originalName = originalname file,
      size_att = size_file file,
      cloudinaryPublicId = Some (public_id result),
      cloudinaryUrl = Some (secure_url result),
      resourceType = ''raw'',
      uploadDate = now e,
      firstPagePreviewUrl = preview,
      isPdf = pdf\<rparr>"

text \<open>The preview of a PDF on disk: generate it and, when a path came back, upload the
  image and delete the local copy.\<close>

definition upload_preview :: "env \<Rightarrow> string \<Rightarrow> string option io" where
  "upload_preview e filePath =
     io_bind (generatePdfPreview e filePath filePath)
       (\<lambda>previewPath.
          if truthy previewPath then
            io_bind (uploadToCloudinary e (the previewPath) ''image'' ''pdf-previews'')
              (\<lambda>previewResult.
                 io_bind (safeDeleteFile e (the previewPath))
                   (\<lambda>u. io_return (Some (secure_url previewResult))))
          else io_return None)"

definition process_file :: "env \<Rightarrow> multer_file \<Rightarrow> attachment io" where
  "process_file e file =
     (if isServerless e then
        io_bind (uploadBufferToCloudinary e (buffer file) (originalname file) ''raw'' ''takeoffs'')
          (\<lambda>result.
             io_return (new_attachment e file result None (mimetype file = ''application/pdf'')))
      else
        io_bind (local_path e file)
          (\<lambda>filePath.
             io_bind (uploadToCloudinary e filePath ''raw'' ''takeoffs'')
               (\<lambda>result.
                  io_bind (if mimetype file = ''application/pdf''
                           then upload_preview e filePath else io_return None)
                    (\<lambda>preview.
                       io_bind (safeDeleteFile e filePath)
                         (\<lambda>u. io_return
                                (new_attachment e file result preview
                                   (mimetype file = ''application/pdf'')))))))"

definition process_pdfPreview :: "env \<Rightarrow> multer_file \<Rightarrow> attachment io" where
  "process_pdfPreview e pdf =
     (if isServerless e then
        io_bind (uploadBufferToCloudinary e (buffer pdf) (originalname pdf) ''raw'' ''takeoffs'')
          (\<lambda>result. io_return (new_attachment e pdf result None True))
      else
        io_bind (local_path e pdf)
          (\<lambda>filePath.
             io_bind (uploadToCloudinary e filePath ''raw'' ''takeoffs'')
               (\<lambda>result.
                  io_bind (if mimetype pdf = ''application/pdf''
                           then upload_preview e filePath else io_return None)
                    (\<lambda>preview.
                       io_bind (safeDeleteFile e filePath)
                         (\<lambda>u. io_return (new_attachment e pdf result preview True))))))"

text \<open>\<^verbatim>\<open>req.files && req.files.files\<close>: no loop when either is missing.\<close>

definition field_files ::
  "req_files option \<Rightarrow> (req_files \<Rightarrow> multer_file list option) \<Rightarrow> multer_file list" where
  "field_files rf field =
     (case rf of
        None \<Rightarrow> []
      | Some r \<Rightarrow> (case field r of None \<Rightarrow> [] | Some fs \<Rightarrow> fs))"

text \<open>\<^verbatim>\<open>let parsed = v; if (typeof v === 'string') { try { parsed = JSON.parse(v); } catch {} }\<close>:
  the empty \<^verbatim>\<open>catch\<close> keeps the value as it was supplied.\<close>

definition parse_if_string :: "env \<Rightarrow> jsval \<Rightarrow> jsval" where
  "parse_if_string e v =
     (case v of
        JStr s \<Rightarrow> (case JSON_parse e s of Inr parsed \<Rightarrow> parsed | Inl error \<Rightarrow> v)
      | _ \<Rightarrow> v)"

section \<open>The document store\<close>

text \<open>
  The calls on the \<^verbatim>\<open>Takeoff\<close> model, after the documentation of the store:
  \<^verbatim>\<open>findById\<close> gives the document with that \<^verbatim>\<open>_id\<close> or \<^verbatim>\<open>null\<close>;
  \<^verbatim>\<open>save\<close> checks the document against the schema (\<open>validate\<close>)
  and inserts it, refusing a duplicate \<^verbatim>\<open>_id\<close>; \<^verbatim>\<open>findByIdAndUpdate\<close> with
  \<^verbatim>\<open>new: true\<close> sets the supplied fields, appends the \<^verbatim>\<open>$push\<close> \<^verbatim>\<open>$each\<close>
  elements at the end of their arrays and gives the updated document;
  \<^verbatim>\<open>deleteOne\<close> removes the document; \<^verbatim>\<open>populate\<close> replaces the creator
  reference by the user's public fields. Identifiers are well-formed object ids, and
  the store answers every call.
\<close>

definition findById :: "string \<Rightarrow> store \<Rightarrow> takeoff option" where
  "findById i st = find (\<lambda>t. takeoff_id t = i) (takeoffs st)"

text \<open>
  Modelled from the spec: the validation of a document against the schema
  \<^verbatim>\<open>models/Takeoff\<close>, which is not among the sources. The spec has the raw text of a
  field that fails to decode passed through and accepted (sections 4.4 and 8) and calls
  \<^verbatim>\<open>features\<close> and \<^verbatim>\<open>specifications\<close> free-form (section 3): the schema asks
  nothing of \<^verbatim>\<open>features\<close>, \<^verbatim>\<open>specifications\<close> and \<^verbatim>\<open>tags\<close>. What it asks of the
  rest of a document is a parameter (\<open>save_check\<close>, and \<open>update_check\<close> for an
  update), so the verdict is taken on the document without these three fields.
\<close>

definition validate :: "env \<Rightarrow> takeoff \<Rightarrow> js_error option" where
  "validate e t =
     save_check e (t\<lparr>features := JUndefined, specifications := JUndefined, tags := JUndefined\<rparr>)"

definition validate_update :: "env \<Rightarrow> update_doc \<Rightarrow> js_error option" where
  "validate_update e u =
     update_check e
       (u\<lparr>features_u := JUndefined, specifications_u := JUndefined, tags_u := JUndefined\<rparr>)"

definition save :: "env \<Rightarrow> takeoff \<Rightarrow> store \<Rightarrow> store io" where
  "save e t st =
     (case validate e t of
        Some err \<Rightarrow> io_throw err
      | None \<Rightarrow>
          (if findById (takeoff_id t) st \<noteq> None
           then (Inl (OtherError ''E11000 duplicate key error''), [Save (takeoff_id t)])
           else (Inr (st\<lparr>takeoffs := takeoffs st @ [t]\<rparr>), [Save (takeoff_id t)])))"

definition set_if_supplied :: "'a option \<Rightarrow> 'a option \<Rightarrow> 'a option" where
  "set_if_supplied new old = (case new of None \<Rightarrow> old | Some v \<Rightarrow> Some v)"

definition set_if_defined :: "jsval \<Rightarrow> jsval \<Rightarrow> jsval" where
  "set_if_defined new old = (if new = JUndefined then old else new)"

definition apply_update :: "update_doc \<Rightarrow> takeoff \<Rightarrow> takeoff" where
  "apply_update u t =
     t\<lparr>title := set_if_supplied (title_u u) (title t),
       description := set_if_supplied (description_u u) (description t),
       projectType := set_if_supplied (projectType_u u) (projectType t),
       projectSize := set_if_supplied (projectSize_u u) (projectSize t),
       zipCode := set_if_supplied (zipCode_u u) (zipCode t),
       address := set_if_supplied (address_u u) (address t),
       price := set_if_supplied (price_u u) (price t),
       features := set_if_defined (features_u u) (features t),
       specifications := set_if_defined (specifications_u u) (specifications t),
       tags := set_if_defined (tags_u u) (tags t),
       expirationDate := set_if_supplied (expirationDate_u u) (expirationDate t),
       isActive := set_if_supplied (isActive_u u) (isActive t),
       updatedAt := updatedAt_u u,
       files := files t @ push_files u,
       pdfPreview := pdfPreview t @ push_pdfPreview u\<rparr>"

fun update_first :: "string \<Rightarrow> (takeoff \<Rightarrow> takeoff) \<Rightarrow> takeoff list \<Rightarrow> takeoff list" where
  "update_first i f [] = []"
| "update_first i f (t # ts) =
     (if takeoff_id t = i then f t # ts else t # update_first i f ts)"

fun remove_first :: "string \<Rightarrow> takeoff list \<Rightarrow> takeoff list" where
  "remove_first i [] = []"
| "remove_first i (t # ts) = (if takeoff_id t = i then ts else t # remove_first i ts)"

definition findByIdAndUpdate ::
  "env \<Rightarrow> string \<Rightarrow> update_doc \<Rightarrow> store \<Rightarrow> (takeoff option \<times> store) io" where
  "findByIdAndUpdate e i u st =
     (case validate_update e u of
        Some err \<Rightarrow> io_throw err
      | None \<Rightarrow>
          (case findById i st of
             None \<Rightarrow> (Inr (None, st), [FindByIdAndUpdate i])
           | Some t \<Rightarrow>
               (Inr (Some (apply_update u t),
                     st\<lparr>takeoffs := update_first i (apply_update u) (takeoffs st)\<rparr>),
                [FindByIdAndUpdate i])))"

definition deleteOne :: "string \<Rightarrow> store \<Rightarrow> store io" where
  "deleteOne i st = (Inr (st\<lparr>takeoffs := remove_first i (takeoffs st)\<rparr>), [DeleteOne i])"

definition populate :: "store \<Rightarrow> takeoff \<Rightarrow> takeoff" where
  "populate st t =
     (case createdBy t of
        CreatorRef u \<Rightarrow>
          (case find (\<lambda>usr. user_id usr = u) (users st) of
             Some usr \<Rightarrow> t\<lparr>createdBy := CreatorDoc usr\<rparr>
           | None \<Rightarrow> t\<lparr>createdBy := NoCreator\<rparr>)
      | _ \<Rightarrow> t)"

section \<open>Create, read, update, delete\<close>

text \<open>A handler returns its response, the store after it, and the events. The
  \<^verbatim>\<open>catch\<close> of \<^verbatim>\<open>createTakeoff\<close> and \<^verbatim>\<open>updateTakeoff\<close> answers 400 with the field
  messages for a \<^verbatim>\<open>ValidationError\<close> and 500 with the message otherwise.\<close>

definition respond_error :: "js_error \<Rightarrow> response" where
  "respond_error err =
     (case err of
        ValidationError msg errors \<Rightarrow> \<lparr>status = 400, body = ErrorsBody errors\<rparr>
      | OtherError msg \<Rightarrow> \<lparr>status = 500, body = ErrorBody msg\<rparr>)"

text \<open>\<^verbatim>\<open>new Takeoff({...})\<close> with the parsed fields and the attachments of the two
  loops. The identifier and the timestamps come from the model class, which is not among
  the sources; \<^verbatim>\<open>createTakeoff\<close> does not read a description from the body.\<close>

definition new_Takeoff :: "env \<Rightarrow> req_body \<Rightarrow> attachment list \<Rightarrow> attachment list \<Rightarrow> takeoff" where
  "new_Takeoff e b fs ps =
     \<lparr>takeoff_id = new_ObjectId e,
      title = title_b b,
      description = None,
      projectType = projectType_b b,
      projectSize = projectSize_b b,
      zipCode = zipCode_b b,
      address = address_b b,
      price = price_b b,
      features = parse_if_string e (features_b b),
      specifications = parse_if_string e (specifications_b b),
      tags = parse_if_string e (tags_b b),
      isActive = isActive_b b,
      expirationDate = expirationDate_b b,
      createdBy = (case createdBy_b b of None \<Rightarrow> NoCreator | Some u \<Rightarrow> CreatorRef u),
      createdAt = now e,
      updatedAt = now e,
      files = fs,
      pdfPreview = ps\<rparr>"

definition createTakeoff_try ::
  "env \<Rightarrow> req_body \<Rightarrow> req_files option \<Rightarrow> store \<Rightarrow> (takeoff \<times> store) io" where
  "createTakeoff_try e b rf st =
     io_bind (io_each (process_file e) (field_files rf files_field))
       (\<lambda>fs. io_bind (io_each (process_pdfPreview e) (field_files rf pdfPreview_field))
       (\<lambda>ps. io_bind (save e (new_Takeoff e b fs ps) st)
       (\<lambda>st'. io_return (new_Takeoff e b fs ps, st'))))"

definition createTakeoff ::
  "env \<Rightarrow> req_body \<Rightarrow> req_files option \<Rightarrow> store \<Rightarrow> response \<times> store \<times> event list" where
  "createTakeoff e b rf st =
     (case createTakeoff_try e b rf st of
        (Inr (t, st'), tr) \<Rightarrow> (\<lparr>status = 201, body = TakeoffBody t\<rparr>, st', tr)
      | (Inl err, tr) \<Rightarrow> (respond_error err, st, tr))"

definition getTakeoffById :: "string \<Rightarrow> store \<Rightarrow> response" where
  "getTakeoffById i st =
     (case findById i st of
        None \<Rightarrow> \<lparr>status = 404, body = ErrorBody ''Takeoff not found''\<rparr>
      | Some t \<Rightarrow> \<lparr>status = 200, body = TakeoffBody (populate st t)\<rparr>)"

definition new_update :: "env \<Rightarrow> req_body \<Rightarrow> attachment list \<Rightarrow> attachment list \<Rightarrow> update_doc" where
  "new_update e b fs ps =
     \<lparr>title_u = title_b b,
      description_u = description_b b,
      projectType_u = projectType_b b,
      projectSize_u = projectSize_b b,
      zipCode_u = zipCode_b b,
      address_u = address_b b,
      price_u = price_b b,
      features_u = parse_if_string e (features_b b),
      specifications_u = parse_if_string e (specifications_b b),
      tags_u = parse_if_string e (tags_b b),
      expirationDate_u = expirationDate_b b,
      isActive_u = isActive_b b,
      updatedAt_u = now e,
      push_files = fs,
      push_pdfPreview = ps\<rparr>"

definition updateTakeoff_try ::
  "env \<Rightarrow> string \<Rightarrow> req_body \<Rightarrow> req_files option \<Rightarrow> store \<Rightarrow> (takeoff option \<times> store) io" where
  "updateTakeoff_try e i b rf st =
     io_bind (io_each (process_file e) (field_files rf files_field))
       (\<lambda>fs. io_bind (io_each (process_pdfPreview e) (field_files rf pdfPreview_field))
       (\<lambda>ps. findByIdAndUpdate e i (new_update e b fs ps) st))"

definition updateTakeoff ::
  "env \<Rightarrow> string \<Rightarrow> req_body \<Rightarrow> req_files option \<Rightarrow> store
     \<Rightarrow> response \<times> store \<times> event list" where
  "updateTakeoff e i b rf st =
     (case updateTakeoff_try e i b rf st of
        (Inr (None, st'), tr) \<Rightarrow>
          (\<lparr>status = 404, body = ErrorBody ''Takeoff not found''\<rparr>, st', tr)
      | (Inr (Some t, st'), tr) \<Rightarrow> (\<lparr>status = 200, body = TakeoffBody t\<rparr>, st', tr)
      | (Inl err, tr) \<Rightarrow> (respond_error err, st, tr))"

text \<open>\<^verbatim>\<open>deleteTakeoff\<close>: one \<^verbatim>\<open>destroy\<close> call, awaited, for each attachment whose
  \<^verbatim>\<open>cloudinaryPublicId\<close> is truthy; an error of any kind is answered 500.\<close>

definition destroy_attachment :: "env \<Rightarrow> attachment \<Rightarrow> unit io" where
  "destroy_attachment e file =
     (if truthy (cloudinaryPublicId file) then
        (case cloudinary_destroy e (the (cloudinaryPublicId file)) ''raw'' of
           Some err \<Rightarrow> (Inl err, [Destroy (the (cloudinaryPublicId file)) ''raw''])
         | None \<Rightarrow> (Inr (), [Destroy (the (cloudinaryPublicId file)) ''raw'']))
      else io_return ())"

definition deleteTakeoff_try :: "env \<Rightarrow> takeoff \<Rightarrow> store \<Rightarrow> store io" where
  "deleteTakeoff_try e t st =
     io_bind (io_each (destroy_attachment e) (files t))
       (\<lambda>us. io_bind (io_each (destroy_attachment e) (pdfPreview t))
       (\<lambda>vs. deleteOne (takeoff_id t) st))"

definition deleteTakeoff :: "env \<Rightarrow> string \<Rightarrow> store \<Rightarrow> response \<times> store \<times> event list" where
  "deleteTakeoff e i st =
     (case findById i st of
        None \<Rightarrow> (\<lparr>status = 404, body = ErrorBody ''Takeoff not found''\<rparr>, st, [])
      | Some t \<Rightarrow>
          (case deleteTakeoff_try e t st of
             (Inr st', tr) \<Rightarrow> (\<lparr>status = 200, body = MessageBody ''Takeoff deleted''\<rparr>, st', tr)
           | (Inl err, tr) \<Rightarrow> (\<lparr>status = 500, body = ErrorBody (message err)\<rparr>, st, tr)))"

section \<open>Listing: filter, sort, pagination\<close>

text \<open>
  The query parameters arrive as text. \<^verbatim>\<open>zipCode\<close>, \<^verbatim>\<open>size\<close>, \<^verbatim>\<open>type\<close>,
  \<^verbatim>\<open>search\<close> and \<^verbatim>\<open>sort\<close> are strings or absent; \<^verbatim>\<open>priceMin\<close>,
  \<^verbatim>\<open>priceMax\<close>, \<^verbatim>\<open>page\<close> and \<^verbatim>\<open>limit\<close> are absent or the decimal text of an
  integer, which is truthy as a string and which \<^verbatim>\<open>Number\<close> reads as that integer.
\<close>

record query =
  zipCode_q :: "string option"
  size_q :: "string option"
  type_q :: "string option"
  priceMin_q :: "int option"
  priceMax_q :: "int option"
  search_q :: "string option"
  sort_q :: "string option"
  page_q :: "int option"
  limit_q :: "int option"

text \<open>The filter object handed to \<^verbatim>\<open>Takeoff.find\<close>: a field that is \<open>None\<close> is
  not in the object.\<close>

record filter_doc =
  zipCode_f :: "string option"
  projectSize_f :: "string option"
  projectType_in :: "string list option"
  price_gte :: "int option"
  price_lte :: "int option"
  or_regex :: "string option"

definition build_filter :: "env \<Rightarrow> query \<Rightarrow> filter_doc" where
  "build_filter e q =
     \<lparr>zipCode_f = (if truthy (zipCode_q q) then zipCode_q q else None),
      projectSize_f =
        (if truthy (size_q q) then Some (toLowerCase e (the (size_q q))) else None),
      projectType_in =
        (if truthy (type_q q)
         then Some (map (\<lambda>t. toLowerCase e (trim e t)) (split CHR '','' (the (type_q q))))
         else None),
      price_gte = priceMin_q q,
      price_lte = priceMax_q q,
      or_regex = (if truthy (search_q q) then search_q q else None)\<rparr>"

text \<open>The conditions of the filter other than the \<^verbatim>\<open>$or\<close>: equality, \<^verbatim>\<open>$in\<close>,
  \<^verbatim>\<open>$gte\<close> and \<^verbatim>\<open>$lte\<close> compare the stored value as it is.\<close>

definition matches_fields :: "filter_doc \<Rightarrow> takeoff \<Rightarrow> bool" where
  "matches_fields f t =
     ((case zipCode_f f of None \<Rightarrow> True | Some z \<Rightarrow> zipCode t = Some z)
      \<and> (case projectSize_f f of None \<Rightarrow> True | Some z \<Rightarrow> projectSize t = Some z)
      \<and> (case projectType_in f of
            None \<Rightarrow> True
          | Some types \<Rightarrow> (case projectType t of None \<Rightarrow> False | Some p \<Rightarrow> p \<in> set types))
      \<and> (case price_gte f of
            None \<Rightarrow> True
          | Some lo \<Rightarrow> (case price t of None \<Rightarrow> False | Some p \<Rightarrow> lo \<le> p))
      \<and> (case price_lte f of
            None \<Rightarrow> True
          | Some hi \<Rightarrow> (case price t of None \<Rightarrow> False | Some p \<Rightarrow> p \<le> hi)))"

text \<open>A \<^verbatim>\<open>$regex\<close> condition on a field: a document that lacks the field does not
  match.\<close>

definition regex_field :: "(string \<Rightarrow> bool) \<Rightarrow> string option \<Rightarrow> bool" where
  "regex_field m v = (case v of None \<Rightarrow> False | Some s \<Rightarrow> m s)"

text \<open>\<^verbatim>\<open>Takeoff.find(filter)\<close>: the documents that meet every condition of the
  filter and, when there is a search text, one of the three \<^verbatim>\<open>$regex\<close> conditions of
  the \<^verbatim>\<open>$or\<close>, each with the search text as its pattern and the option \<^verbatim>\<open>i\<close>. A
  pattern that the store refuses fails the query.\<close>

definition find_takeoffs :: "env \<Rightarrow> filter_doc \<Rightarrow> takeoff list \<Rightarrow> js_error + takeoff list" where
  "find_takeoffs e f ts =
     (case or_regex f of
        None \<Rightarrow> Inr (filter (matches_fields f) ts)
      | Some pattern \<Rightarrow>
          (case regex_of e pattern ''i'' of
             Inl err \<Rightarrow> Inl err
           | Inr m \<Rightarrow>
               Inr (filter (\<lambda>t. matches_fields f t
                       \<and> (regex_field m (title t) \<or> regex_field m (description t)
                            \<or> regex_field m (zipCode t))) ts)))"

datatype sort_option = CreatedAtDesc | PriceAsc | PriceDesc | ProjectSizeAsc

definition sort_option_of :: "string option \<Rightarrow> sort_option" where
  "sort_option_of srt =
     (if srt = Some ''price_asc'' then PriceAsc
      else if srt = Some ''price_desc'' then PriceDesc
      else if srt = Some ''size'' then ProjectSizeAsc
      else if srt = Some ''newest'' then CreatedAtDesc
      else CreatedAtDesc)"

text \<open>The order of documents with equal keys is not fixed by the store; the model keeps
  them in the order of the collection. A missing value is the least value.\<close>

fun sort_takeoffs :: "sort_option \<Rightarrow> takeoff list \<Rightarrow> takeoff list" where
  "sort_takeoffs PriceAsc ts = sort_key price ts"
| "sort_takeoffs PriceDesc ts = rev (sort_key price (rev ts))"
| "sort_takeoffs ProjectSizeAsc ts = sort_key projectSize ts"
| "sort_takeoffs CreatedAtDesc ts = rev (sort_key createdAt (rev ts))"

text \<open>\<^verbatim>\<open>skip\<close> and \<^verbatim>\<open>limit\<close> of the store, after its documentation: a negative
  skip is refused with an error (whose wording is the store's), a limit of 0 is no limit,
  and a negative limit is the limit of its absolute value.\<close>

definition skip_limit :: "int \<Rightarrow> int \<Rightarrow> 'a list \<Rightarrow> js_error + 'a list" where
  "skip_limit skp lim xs =
     (if skp < 0 then Inl (OtherError ''Skip value must be non-negative'')
      else if lim = 0 then Inr (drop (nat skp) xs)
      else Inr (take (nat \<bar>lim\<bar>) (drop (nat skp) xs)))"

text \<open>\<^verbatim>\<open>getAllTakeoffs\<close>: an error of the query, whichever it is, is answered 500
  with its message.\<close>

definition getAllTakeoffs :: "env \<Rightarrow> query \<Rightarrow> store \<Rightarrow> response" where
  "getAllTakeoffs e q st =
     (let page = (case page_q q of None \<Rightarrow> 1 | Some n \<Rightarrow> n);
          limit = (case limit_q q of None \<Rightarrow> 9 | Some n \<Rightarrow> n);
          sortOption = sort_option_of (sort_q q);
          skp = (page - 1) * limit
      in case find_takeoffs e (build_filter e q) (takeoffs st) of
           Inl err \<Rightarrow> \<lparr>status = 500, body = ErrorBody (message err)\<rparr>
         | Inr found \<Rightarrow>
             (case skip_limit skp limit (sort_takeoffs sortOption found) of
                Inl err \<Rightarrow> \<lparr>status = 500, body = ErrorBody (message err)\<rparr>
              | Inr ts \<Rightarrow> \<lparr>status = 200, body = TakeoffsBody (map (populate st) ts)\<rparr>))"

section \<open>Notions of the statements\<close>

text \<open>The remote ids that \<^verbatim>\<open>deleteTakeoff\<close> hands to the media service for a list of
  attachments: those of the attachments with a truthy \<^verbatim>\<open>cloudinaryPublicId\<close>, in
  order.\<close>

definition remote_ids :: "attachment list \<Rightarrow> string list" where
  "remote_ids as =
     map (\<lambda>a. the (cloudinaryPublicId a)) (filter (\<lambda>a. truthy (cloudinaryPublicId a)) as)"

text \<open>The reading of the spec: the search text occurs in the field, letter case aside.\<close>

definition contains_ci :: "env \<Rightarrow> string \<Rightarrow> string option \<Rightarrow> bool" where
  "contains_ci e s v =
     (case v of None \<Rightarrow> False | Some x \<Rightarrow> sublist (toLowerCase e s) (toLowerCase e x))"

section \<open>A concrete world for the examples\<close>

text \<open>The text operations of the examples, on the characters U+0000 to U+00FF, where
  they are those of the runtime: \<^verbatim>\<open>toLowerCase\<close> lowers the letters A to Z and U+00C0 to
  U+00DE (the multiplication sign U+00D7 apart), and \<^verbatim>\<open>trim\<close> strips the space, the
  control characters 9 to 13 and the no-break space U+00A0.\<close>

definition demo_lower_char :: "char \<Rightarrow> char" where
  "demo_lower_char c =
     (if (65 \<le> (of_char c :: nat) \<and> (of_char c :: nat) \<le> 90)
         \<or> (192 \<le> (of_char c :: nat) \<and> (of_char c :: nat) \<le> 222 \<and> (of_char c :: nat) \<noteq> 215)
      then char_of ((of_char c :: nat) + 32) else c)"

definition demo_toLowerCase :: "string \<Rightarrow> string" where
  "demo_toLowerCase s = map demo_lower_char s"

definition demo_is_space :: "char \<Rightarrow> bool" where
  "demo_is_space c =
     ((of_char c :: nat) = 32 \<or> (of_char c :: nat) = 160
      \<or> (9 \<le> (of_char c :: nat) \<and> (of_char c :: nat) \<le> 13))"

definition demo_trim :: "string \<Rightarrow> string" where
  "demo_trim s = rev (dropWhile demo_is_space (rev (dropWhile demo_is_space s)))"

text \<open>The expression engine of the examples. It knows the patterns made of ordinary
  characters, which stand for themselves, and of the dot, which stands for any character
  but the line feed; on these it decides as the store does. It refuses every pattern that
  uses another operator character; the examples use one such pattern, the unmatched
  parenthesis, which the store refuses too. With the option \<^verbatim>\<open>i\<close> letters match in
  either case.\<close>

datatype demo_rx_atom = RxChar char | RxAny

definition demo_rx_operators :: "char list" where
  "demo_rx_operators =
     [CHR 0x5C, CHR ''^'', CHR ''$'', CHR ''['', CHR '']'', CHR ''|'', CHR ''('', CHR '')'',
      CHR ''?'', CHR ''*'', CHR ''+'', CHR ''{'', CHR ''}'']"

fun demo_rx_compile :: "string \<Rightarrow> demo_rx_atom list option" where
  "demo_rx_compile [] = Some []"
| "demo_rx_compile (c # cs) =
     (if c \<in> set demo_rx_operators then None
      else (case demo_rx_compile cs of
              None \<Rightarrow> None
            | Some r \<Rightarrow> Some ((if c = CHR ''.'' then RxAny else RxChar c) # r)))"

fun demo_rx_atom_match :: "bool \<Rightarrow> demo_rx_atom \<Rightarrow> char \<Rightarrow> bool" where
  "demo_rx_atom_match ci RxAny c = (c \<noteq> CHR 0x0A)"
| "demo_rx_atom_match ci (RxChar d) c =
     (if ci then demo_lower_char c = demo_lower_char d else c = d)"

fun demo_rx_match_here :: "bool \<Rightarrow> demo_rx_atom list \<Rightarrow> string \<Rightarrow> bool" where
  "demo_rx_match_here ci [] s = True"
| "demo_rx_match_here ci (a # r) [] = False"
| "demo_rx_match_here ci (a # r) (c # s) =
     (demo_rx_atom_match ci a c \<and> demo_rx_match_here ci r s)"

fun demo_rx_search :: "bool \<Rightarrow> demo_rx_atom list \<Rightarrow> string \<Rightarrow> bool" where
  "demo_rx_search ci r [] = demo_rx_match_here ci r []"
| "demo_rx_search ci r (c # s) = (demo_rx_match_here ci r (c # s) \<or> demo_rx_search ci r s)"

definition demo_regex :: "string \<Rightarrow> string \<Rightarrow> js_error + (string \<Rightarrow> bool)" where
  "demo_regex pattern options =
     (case demo_rx_compile pattern of
        None \<Rightarrow> Inl (OtherError ''Regular expression is invalid'')
      | Some r \<Rightarrow> Inr (demo_rx_search (CHR ''i'' \<in> set options) r))"

text \<open>Disk mode; every file exists, every upload and every remote deletion succeeds, the
  renderer writes the first page and resolves with the object of that page, the parser
  knows one text, and the schema accepts every document.\<close>

definition demo_env :: env where
  "demo_env =
     \<lparr>isServerless = False,
      dirname = ''/app/controllers'',
      now = 7,
      new_ObjectId = ''id9'',
      fs_existsSync = (\<lambda>p. True),
      path_isAbsolute = (\<lambda>p. case p of [] \<Rightarrow> False | c # cs \<Rightarrow> c = CHR ''/''),
      path_join = (\<lambda>ps. foldr (\<lambda>a b. if b = [] then a else a @ ''/'' @ b) ps []),
      path_dirname = (\<lambda>p. ''/up''),
      cloudinary_upload =
        (\<lambda>p r f. Inr \<lparr>public_id = f @ p, secure_url = ''https://cdn/'' @ f @ p\<rparr>),
      cloudinary_upload_stream =
        (\<lambda>b r f pid. Inr \<lparr>public_id = pid, secure_url = ''https://cdn/'' @ pid\<rparr>),
      cloudinary_destroy = (\<lambda>p r. None),
      pdf_convert = (\<lambda>p d. Inr (OnePage \<lparr>page_name = Some ''preview.1.png''\<rparr>)),
      JSON_parse =
        (\<lambda>s. if s = ''[1,2]'' then Inr (JArr [JNum 1, JNum 2])
             else Inl (OtherError ''Unexpected token'')),
      save_check = (\<lambda>t. None),
      update_check = (\<lambda>u. None),
      toLowerCase = demo_toLowerCase,
      trim = demo_trim,
      regex_of = demo_regex\<rparr>"

text \<open>The same world with a renderer that resolves with an array of one page, and the
  same world with a media service that refuses every deletion.\<close>

definition demo_env_pages :: env where
  "demo_env_pages =
     demo_env\<lparr>pdf_convert := \<lambda>p d. Inr (Pages [\<lparr>page_name = Some ''preview.1.png''\<rparr>])\<rparr>"

definition demo_env_down :: env where
  "demo_env_down = demo_env\<lparr>cloudinary_destroy := \<lambda>p r. Some (OtherError ''down'')\<rparr>"

definition demo_attachment :: "string option \<Rightarrow> attachment" where
  "demo_attachment pid =
     \<lparr>filename = ''plan.pdf'', originalName = ''plan.pdf'', size_att = 10,
      cloudinaryPublicId = pid, cloudinaryUrl = Some ''https://cdn/plan.pdf'',
      resourceType = ''raw'', uploadDate = 1, firstPagePreviewUrl = None, isPdf = True\<rparr>"

definition demo_takeoff :: takeoff where
  "demo_takeoff =
     \<lparr>takeoff_id = ''id1'', title = Some ''abc'', description = None,
      projectType = Some ''Commercial'', projectSize = Some ''small'',
      zipCode = Some ''12345'', address = None, price = Some 100,
      features = JArr [], specifications = JUndefined, tags = JArr [],
      isActive = Some True, expirationDate = None, createdBy = NoCreator,
      createdAt = 1, updatedAt = 1,
      files = [demo_attachment (Some ''takeoffs/a''), demo_attachment None],
      pdfPreview = [demo_attachment (Some ''takeoffs/b'')]\<rparr>"

definition demo_store :: store where
  "demo_store = \<lparr>takeoffs = [demo_takeoff], users = []\<rparr>"

definition demo_body :: req_body where
  "demo_body =
     \<lparr>title_b = Some ''New'', description_b = None, projectType_b = Some ''commercial'',
      projectSize_b = None, zipCode_b = None, address_b = None, price_b = Some 5,
      features_b = JStr ''[1,2]'', specifications_b = JStr ''{oops'', tags_b = JUndefined,
      isActive_b = None, expirationDate_b = None, createdBy_b = None\<rparr>"

definition demo_file :: "string \<Rightarrow> multer_file" where
  "demo_file mime =
     \<lparr>originalname = ''scan'', mimetype = mime, size_file = 3,
      path = Some ''/up/f1'', filename_file = Some ''f1'', buffer = None\<rparr>"

definition demo_query :: query where
  "demo_query =
     \<lparr>zipCode_q = None, size_q = None, type_q = None, priceMin_q = None, priceMax_q = None,
      search_q = None, sort_q = None, page_q = None, limit_q = None\<rparr>"

text \<open>A request with one file in each field-group.\<close>

definition demo_files :: req_files where
  "demo_files =
     \<lparr>files_field = Some [demo_file ''application/pdf''],
      pdfPreview_field = Some [demo_file ''image/png'']\<rparr>"

text \<open>Three records that differ in price, and three that differ in project type.\<close>

definition demo_priced :: "string \<Rightarrow> int \<Rightarrow> takeoff" where
  "demo_priced i p = demo_takeoff\<lparr>takeoff_id := i, price := Some p\<rparr>"

definition demo_store3 :: store where
  "demo_store3 =
     \<lparr>takeoffs = [demo_priced ''a'' 30, demo_priced ''b'' 10, demo_priced ''c'' 20],
      users = []\<rparr>"

definition demo_typed :: "string \<Rightarrow> string \<Rightarrow> takeoff" where
  "demo_typed i ty = demo_takeoff\<lparr>takeoff_id := i, projectType := Some ty\<rparr>"

definition demo_store_types :: store where
  "demo_store_types =
     \<lparr>takeoffs = [demo_typed ''x'' ''commercial'', demo_typed ''y'' ''residential'',
                  demo_typed ''z'' ''industrial''],
      users = []\<rparr>"

text \<open>An empty collection, and a request to create a record whose project type is
  written with a capital letter.\<close>

definition demo_empty :: store where
  "demo_empty = \<lparr>takeoffs = [], users = []\<rparr>"

definition demo_body_upper :: req_body where
  "demo_body_upper = demo_body\<lparr>projectType_b := Some ''Industrial''\<rparr>"

section \<open>Properties of the auth middleware\<close>

lemma split_not_Nil: "split sep s \<noteq> []"
  by (induction s) (auto split: list.splits)

lemma split_no_sep: "sep \<notin> set s \<Longrightarrow> split sep s = [s]"
  by (induction s) (auto split: list.splits)

lemma split_first_segment:
  "sep \<notin> set s \<Longrightarrow> split sep (s @ sep # r) = s # split sep r"
  by (induction s) (auto split: list.splits)

lemma token_of_None: "token_of None = None" by (simp add: token_of_def truthy_def)

lemma token_of_scheme:
  "CHR '' '' \<notin> set s \<Longrightarrow> token_of (Some (s @ CHR '' '' # r)) = Some (hd (split CHR '' '' r))"
  using split_not_Nil[of "CHR '' ''" r]
  by (cases "split CHR '' '' r") (simp_all add: token_of_def truthy_def split_first_segment)

lemma token_of_word:
  "CHR '' '' \<notin> set w \<Longrightarrow> \<not> truthy (token_of (Some w))"
  by (simp add: token_of_def truthy_def split_no_sep)

text \<open>
  Claim C8. Every request is answered 401 for want of a token, or its token is verified
  against the configured secret and the request is answered 401 when the verification
  fails and continues with the decoded claims (the role among them) when it succeeds.
  The header carries no bearer token when it is absent or is the word \<^verbatim>\<open>Bearer\<close>
  with nothing after it; the token that follows \<^verbatim>\<open>Bearer\<close> is the one verified.
\<close>

theorem auth_401_or_verified:
  "(auth jwt_verify secret h =
      (Respond \<lparr>status = 401, body = FailBody ''No token, authorization denied''\<rparr>, [])
    \<or> (\<exists>tok. token_of h = Some tok \<and> tok \<noteq> []
          \<and> (auth jwt_verify secret h =
                 (Respond \<lparr>status = 401, body = FailBody ''Token is not valid''\<rparr>, [tok])
               \<or> (\<exists>decoded. jwt_verify tok secret = Inr decoded
                     \<and> auth jwt_verify secret h = (Continue decoded, [tok])))))
   \<and> auth jwt_verify secret None =
     (Respond \<lparr>status = 401, body = FailBody ''No token, authorization denied''\<rparr>, [])
   \<and> auth jwt_verify secret (Some ''Bearer'') =
     (Respond \<lparr>status = 401, body = FailBody ''No token, authorization denied''\<rparr>, [])
   \<and> auth jwt_verify secret (Some ''Bearer '') =
     (Respond \<lparr>status = 401, body = FailBody ''No token, authorization denied''\<rparr>, [])
   \<and> (t \<noteq> [] \<and> CHR '' '' \<notin> set t \<longrightarrow>
        auth jwt_verify secret (Some (''Bearer '' @ t)) =
          (case jwt_verify t secret of
             Inl err \<Rightarrow> (Respond \<lparr>status = 401, body = FailBody ''Token is not valid''\<rparr>, [t])
           | Inr decoded \<Rightarrow> (Continue decoded, [t])))"
proof -
  have bearer: "''Bearer '' @ t = ''Bearer'' @ CHR '' '' # t" by simp
  have tok: "CHR '' '' \<notin> set t \<Longrightarrow> token_of (Some (''Bearer '' @ t)) = Some t"
    unfolding bearer by (subst token_of_scheme) (simp_all add: split_no_sep)
  have a: "auth jwt_verify secret None =
     (Respond \<lparr>status = 401, body = FailBody ''No token, authorization denied''\<rparr>, [])"
    by (simp add: auth_def token_of_None truthy_def)
  have b: "auth jwt_verify secret (Some ''Bearer'') =
     (Respond \<lparr>status = 401, body = FailBody ''No token, authorization denied''\<rparr>, [])"
    by (simp add: auth_def token_of_def truthy_def)
  have c: "auth jwt_verify secret (Some ''Bearer '') =
     (Respond \<lparr>status = 401, body = FailBody ''No token, authorization denied''\<rparr>, [])"
    by (simp add: auth_def token_of_def truthy_def)
  have d: "t \<noteq> [] \<and> CHR '' '' \<notin> set t \<longrightarrow>
        auth jwt_verify secret (Some (''Bearer '' @ t)) =
          (case jwt_verify t secret of
             Inl err \<Rightarrow> (Respond \<lparr>status = 401, body = FailBody ''Token is not valid''\<rparr>, [t])
           | Inr decoded \<Rightarrow> (Continue decoded, [t]))"
    using tok by (auto simp: auth_def truthy_def Let_def split: sum.splits)
  have every: "auth jwt_verify secret h =
      (Respond \<lparr>status = 401, body = FailBody ''No token, authorization denied''\<rparr>, [])
    \<or> (\<exists>tok. token_of h = Some tok \<and> tok \<noteq> []
          \<and> (auth jwt_verify secret h =
                 (Respond \<lparr>status = 401, body = FailBody ''Token is not valid''\<rparr>, [tok])
               \<or> (\<exists>decoded. jwt_verify tok secret = Inr decoded
                     \<and> auth jwt_verify secret h = (Continue decoded, [tok]))))"
  proof (cases "truthy (token_of h)")
    case False
    then show ?thesis by (simp add: auth_def)
  next
    case True
    then obtain tok where tok: "token_of h = Some tok" "tok \<noteq> []"
      by (cases "token_of h") (auto simp: truthy_def)
    then show ?thesis
      by (cases "jwt_verify tok secret") (simp_all add: auth_def truthy_def)
  qed
  from every a b c d show ?thesis by (intro conjI)
qed

theorem auth_401_or_verified_witness:
  "auth demo_verify (Some ''s3cret'') (Some ''Bearer good'') =
     (Continue \<lparr>userId = ''u1'', role = Some ''admin''\<rparr>, [''good''])
   \<and> auth demo_verify (Some ''s3cret'') (Some ''Bearer bad'') =
     (Respond \<lparr>status = 401, body = FailBody ''Token is not valid''\<rparr>, [''bad''])"
  using auth_401_or_verified
      [where jwt_verify = demo_verify and secret = "Some ''s3cret''" and t = "''good''"
         and h = "Some ''Bearer good''"]
    auth_401_or_verified
      [where jwt_verify = demo_verify and secret = "Some ''s3cret''" and t = "''bad''"
         and h = "Some ''Bearer bad''"]
  by (simp add: demo_verify_def)

text \<open>
  Claim C10. The token handed to the verifier is the second space-separated segment of
  the header, whatever the first segment is and whatever follows the second: the
  middleware answers exactly as the verifier decides on that segment, and it consults the
  verifier on nothing else. Two headers that differ only in the scheme word are
  processed identically. A header of one word, a header whose second segment is empty and
  an absent header are answered 401 with no verification attempted.
\<close>

theorem auth_second_segment:
  "auth jwt_verify secret (Some h) =
     (case js_index (split CHR '' '' h) 1 of
        None \<Rightarrow>
          (Respond \<lparr>status = 401, body = FailBody ''No token, authorization denied''\<rparr>, [])
      | Some t \<Rightarrow>
          if t = [] then
            (Respond \<lparr>status = 401, body = FailBody ''No token, authorization denied''\<rparr>, [])
          else
            (case jwt_verify t secret of
               Inl err \<Rightarrow>
                 (Respond \<lparr>status = 401, body = FailBody ''Token is not valid''\<rparr>, [t])
             | Inr decoded \<Rightarrow> (Continue decoded, [t])))
   \<and> (CHR '' '' \<notin> set s \<and> CHR '' '' \<notin> set t \<and> t \<noteq> [] \<longrightarrow>
        auth jwt_verify secret (Some (s @ CHR '' '' # t)) =
          (case jwt_verify t secret of
             Inl err \<Rightarrow>
               (Respond \<lparr>status = 401, body = FailBody ''Token is not valid''\<rparr>, [t])
           | Inr decoded \<Rightarrow> (Continue decoded, [t]))
        \<and> auth jwt_verify secret (Some (s @ CHR '' '' # t @ CHR '' '' # r)) =
            auth jwt_verify secret (Some (s @ CHR '' '' # t)))
   \<and> (CHR '' '' \<notin> set sa \<and> CHR '' '' \<notin> set sb \<longrightarrow>
        auth jwt_verify secret (Some (sa @ CHR '' '' # r)) =
        auth jwt_verify secret (Some (sb @ CHR '' '' # r)))
   \<and> (CHR '' '' \<notin> set w \<longrightarrow>
        auth jwt_verify secret (Some w) =
          (Respond \<lparr>status = 401, body = FailBody ''No token, authorization denied''\<rparr>, []))
   \<and> auth jwt_verify secret None =
        (Respond \<lparr>status = 401, body = FailBody ''No token, authorization denied''\<rparr>, [])"
proof -
  have a: "auth jwt_verify secret (Some h) =
     (case js_index (split CHR '' '' h) 1 of
        None \<Rightarrow>
          (Respond \<lparr>status = 401, body = FailBody ''No token, authorization denied''\<rparr>, [])
      | Some t \<Rightarrow>
          if t = [] then
            (Respond \<lparr>status = 401, body = FailBody ''No token, authorization denied''\<rparr>, [])
          else
            (case jwt_verify t secret of
               Inl err \<Rightarrow>
                 (Respond \<lparr>status = 401, body = FailBody ''Token is not valid''\<rparr>, [t])
             | Inr decoded \<Rightarrow> (Continue decoded, [t])))"
  proof (cases "h = []")
    case True
    then show ?thesis by (simp add: auth_def token_of_def truthy_def)
  next
    case False
    then show ?thesis
      by (auto simp: auth_def token_of_def truthy_def Let_def split: option.splits sum.splits)
  qed
  have seg: "CHR '' '' \<notin> set s \<Longrightarrow> CHR '' '' \<notin> set t \<Longrightarrow>
      token_of (Some (s @ CHR '' '' # t)) = Some t
      \<and> token_of (Some (s @ CHR '' '' # t @ CHR '' '' # r)) = Some t"
    by (simp add: token_of_scheme split_no_sep split_first_segment)
  have b: "CHR '' '' \<notin> set s \<and> CHR '' '' \<notin> set t \<and> t \<noteq> [] \<longrightarrow>
        auth jwt_verify secret (Some (s @ CHR '' '' # t)) =
          (case jwt_verify t secret of
             Inl err \<Rightarrow>
               (Respond \<lparr>status = 401, body = FailBody ''Token is not valid''\<rparr>, [t])
           | Inr decoded \<Rightarrow> (Continue decoded, [t]))
        \<and> auth jwt_verify secret (Some (s @ CHR '' '' # t @ CHR '' '' # r)) =
            auth jwt_verify secret (Some (s @ CHR '' '' # t))"
    using seg by (auto simp: auth_def truthy_def Let_def split: sum.splits)
  have c: "CHR '' '' \<notin> set sa \<and> CHR '' '' \<notin> set sb \<longrightarrow>
        auth jwt_verify secret (Some (sa @ CHR '' '' # r)) =
        auth jwt_verify secret (Some (sb @ CHR '' '' # r))"
    by (simp add: auth_def token_of_scheme)
  have d: "CHR '' '' \<notin> set w \<longrightarrow>
        auth jwt_verify secret (Some w) =
          (Respond \<lparr>status = 401, body = FailBody ''No token, authorization denied''\<rparr>, [])"
    using token_of_word[of w] by (simp add: auth_def Let_def)
  have f: "auth jwt_verify secret None =
        (Respond \<lparr>status = 401, body = FailBody ''No token, authorization denied''\<rparr>, [])"
    by (simp add: auth_def token_of_None truthy_def)
  from a b c d f show ?thesis by (intro conjI)
qed

theorem auth_second_segment_witness:
  "auth demo_verify (Some ''s3cret'') (Some ''Basic good'') =
     (Continue \<lparr>userId = ''u1'', role = Some ''admin''\<rparr>, [''good''])
   \<and> auth demo_verify (Some ''s3cret'') (Some ''Basic good more'') =
     (Continue \<lparr>userId = ''u1'', role = Some ''admin''\<rparr>, [''good''])
   \<and> auth demo_verify (Some ''s3cret'') (Some ''X bad'') =
     (Respond \<lparr>status = 401, body = FailBody ''Token is not valid''\<rparr>, [''bad''])
   \<and> auth demo_verify (Some ''s3cret'') (Some ''Basic good'') =
     auth demo_verify (Some ''s3cret'') (Some ''Bearer good'')
   \<and> auth demo_verify (Some ''s3cret'') (Some ''good'') =
     (Respond \<lparr>status = 401, body = FailBody ''No token, authorization denied''\<rparr>, [])"
proof -
  note inst = auth_second_segment
    [where jwt_verify = demo_verify and secret = "Some ''s3cret''" and s = "''Basic''"
       and t = "''good''" and r = "''more''" and w = "''good''"]
  have one: "auth demo_verify (Some ''s3cret'') (Some (''Basic'' @ CHR '' '' # ''good'')) =
     (Continue \<lparr>userId = ''u1'', role = Some ''admin''\<rparr>, [''good''])"
    and two: "auth demo_verify (Some ''s3cret'')
        (Some (''Basic'' @ CHR '' '' # ''good'' @ CHR '' '' # ''more'')) =
      auth demo_verify (Some ''s3cret'') (Some (''Basic'' @ CHR '' '' # ''good''))"
    using inst by (simp_all add: demo_verify_def)
  have three: "auth demo_verify (Some ''s3cret'') (Some (''X'' @ CHR '' '' # ''bad'')) =
     (Respond \<lparr>status = 401, body = FailBody ''Token is not valid''\<rparr>, [''bad''])"
    using auth_second_segment
      [where jwt_verify = demo_verify and secret = "Some ''s3cret''" and s = "''X''"
         and t = "''bad''"]
    by (simp add: demo_verify_def)
  have four: "auth demo_verify (Some ''s3cret'') (Some (''Basic'' @ CHR '' '' # ''good'')) =
     auth demo_verify (Some ''s3cret'') (Some (''Bearer'' @ CHR '' '' # ''good''))"
    using auth_second_segment
      [where jwt_verify = demo_verify and secret = "Some ''s3cret''" and sa = "''Basic''"
         and sb = "''Bearer''" and r = "''good''"]
    by simp
  have five: "auth demo_verify (Some ''s3cret'') (Some ''good'') =
     (Respond \<lparr>status = 401, body = FailBody ''No token, authorization denied''\<rparr>, [])"
    using inst by simp
  from one two three four five show ?thesis by simp
qed

section \<open>Sequencing\<close>

lemma io_bind_Inr [simp]: "io_bind (Inr x, tr) f = (fst (f x), tr @ snd (f x))"
  by (simp add: io_bind_def split: prod.splits)

lemma io_bind_Inl [simp]: "io_bind (Inl err, tr) f = (Inl err, tr)"
  by (simp add: io_bind_def)

lemma io_bind_return [simp]: "io_bind (io_return x) f = f x"
  by (simp add: io_return_def)

lemma io_bind_throw [simp]: "io_bind (io_throw err) f = io_throw err"
  by (simp add: io_throw_def)

lemma fst_io_bind:
  "fst (io_bind m f) = (case fst m of Inl err \<Rightarrow> Inl err | Inr x \<Rightarrow> fst (f x))"
  by (cases m) (auto simp: io_bind_def split: sum.splits prod.splits)

lemma snd_io_bind:
  "snd (io_bind m f) = (case fst m of Inl err \<Rightarrow> snd m | Inr x \<Rightarrow> snd m @ snd (f x))"
  by (cases m) (auto simp: io_bind_def split: sum.splits prod.splits)

lemma io_bind_InrE:
  assumes "io_bind m f = (Inr y, tr)"
  obtains x tr1 tr2 where "m = (Inr x, tr1)" "f x = (Inr y, tr2)" "tr = tr1 @ tr2"
  using assms by (cases m) (auto simp: io_bind_def split: sum.splits prod.splits)

lemma io_bind_assoc:
  "io_bind (io_bind m f) g = io_bind m (\<lambda>x. io_bind (f x) g)"
proof (cases m)
  case (Pair r tr)
  show ?thesis
  proof (cases r)
    case (Inl err)
    with Pair show ?thesis by simp
  next
    case (Inr x)
    obtain r1 t1 where fx: "f x = (r1, t1)" by (cases "f x")
    show ?thesis
    proof (cases r1)
      case (Inl err)
      with Pair Inr fx show ?thesis by simp
    next
      case (Inr y)
      with Pair \<open>r = Inr x\<close> fx show ?thesis by simp
    qed
  qed
qed

lemma io_each_append_bind:
  "io_bind (io_each f (xs @ ys)) (\<lambda>ws. k) =
     io_bind (io_each f xs) (\<lambda>us. io_bind (io_each f ys) (\<lambda>vs. k))"
proof (induction xs)
  case Nil
  then show ?case by simp
next
  case (Cons x xs)
  have "io_bind (io_each f ((x # xs) @ ys)) (\<lambda>ws. k) =
      io_bind (f x) (\<lambda>y. io_bind (io_each f (xs @ ys)) (\<lambda>ws. k))"
    by (simp add: io_bind_assoc)
  also have "\<dots> = io_bind (f x) (\<lambda>y. io_bind (io_each f xs)
      (\<lambda>us. io_bind (io_each f ys) (\<lambda>vs. k)))"
    by (simp only: Cons.IH)
  also have "\<dots> = io_bind (io_each f (x # xs)) (\<lambda>us. io_bind (io_each f ys) (\<lambda>vs. k))"
    by (simp add: io_bind_assoc)
  finally show ?case .
qed

section \<open>Deleting a record\<close>

lemma remote_ids_Cons:
  "remote_ids (a # as) =
     (if truthy (cloudinaryPublicId a) then the (cloudinaryPublicId a) # remote_ids as
      else remote_ids as)"
  by (simp add: remote_ids_def)

lemma destroy_each_ok:
  "\<forall>p \<in> set (remote_ids as). cloudinary_destroy e p ''raw'' = None \<Longrightarrow>
   io_each (destroy_attachment e) as =
     (Inr (map (\<lambda>a. ()) as), map (\<lambda>p. Destroy p ''raw'') (remote_ids as))"
  by (induction as) (simp_all add: remote_ids_def destroy_attachment_def io_return_def)

lemma destroy_each_fails:
  "remote_ids as = ok @ p # rest \<Longrightarrow>
   \<forall>x \<in> set ok. cloudinary_destroy e x ''raw'' = None \<Longrightarrow>
   cloudinary_destroy e p ''raw'' = Some err \<Longrightarrow>
   io_each (destroy_attachment e) as = (Inl err, map (\<lambda>x. Destroy x ''raw'') (ok @ [p]))"
proof (induction as arbitrary: ok)
  case Nil
  then show ?case by (simp add: remote_ids_def)
next
  case (Cons a as)
  show ?case
  proof (cases "truthy (cloudinaryPublicId a)")
    case False
    with Cons.prems(1) have "remote_ids as = ok @ p # rest" by (simp add: remote_ids_Cons)
    from Cons.IH[OF this Cons.prems(2,3)] False show ?thesis
      by (simp add: destroy_attachment_def)
  next
    case True
    with Cons.prems(1) have ids: "the (cloudinaryPublicId a) # remote_ids as = ok @ p # rest"
      by (simp add: remote_ids_Cons)
    show ?thesis
    proof (cases ok)
      case Nil
      with ids have "the (cloudinaryPublicId a) = p" by simp
      with True Nil Cons.prems(3) show ?thesis by (simp add: destroy_attachment_def)
    next
      case (Cons x ok')
      with ids have x: "the (cloudinaryPublicId a) = x" and rest: "remote_ids as = ok' @ p # rest"
        by simp_all
      from Cons Cons.prems(2) have okx: "cloudinary_destroy e x ''raw'' = None"
        and ok': "\<forall>y \<in> set ok'. cloudinary_destroy e y ''raw'' = None"
        by simp_all
      from Cons.IH[OF rest ok' Cons.prems(3)] True x okx Cons show ?thesis
        by (simp add: destroy_attachment_def)
    qed
  qed
qed

lemma deleteTakeoff_try_one_loop:
  "deleteTakeoff_try e t st =
     io_bind (io_each (destroy_attachment e) (files t @ pdfPreview t))
       (\<lambda>ws. deleteOne (takeoff_id t) st)"
  by (simp only: deleteTakeoff_try_def io_each_append_bind)

lemma findById_id: "findById i st = Some t \<Longrightarrow> takeoff_id t = i"
  unfolding findById_def by (induction "takeoffs st" arbitrary: st) (auto simp: find_Some_iff)

text \<open>
  Claim C1, as amended. \<^verbatim>\<open>deleteTakeoff\<close> answers 404 and does nothing when no record
  has the id. Otherwise it issues the remote deletions (kind \<^verbatim>\<open>raw\<close>) one after the
  other, for the attachments of \<^verbatim>\<open>files\<close> and then of \<^verbatim>\<open>pdfPreview\<close> that have a
  remote id; an attachment without one is skipped. When all of them succeed the record is
  removed after the last of them and the answer is the confirmation message. When one of
  them fails, those before it have been issued and no later one is, the record is not
  removed, and the answer is 500 with the message of the failure.
\<close>

theorem deleteTakeoff_destroys_then_removes:
  "(findById i st = None \<longrightarrow>
      deleteTakeoff e i st =
        (\<lparr>status = 404, body = ErrorBody ''Takeoff not found''\<rparr>, st, []))
   \<and> (findById i st = Some t
        \<and> (\<forall>p \<in> set (remote_ids (files t @ pdfPreview t)).
              cloudinary_destroy e p ''raw'' = None) \<longrightarrow>
      deleteTakeoff e i st =
        (\<lparr>status = 200, body = MessageBody ''Takeoff deleted''\<rparr>,
         st\<lparr>takeoffs := remove_first i (takeoffs st)\<rparr>,
         map (\<lambda>p. Destroy p ''raw'') (remote_ids (files t @ pdfPreview t)) @ [DeleteOne i]))
   \<and> (findById i st = Some t
        \<and> remote_ids (files t @ pdfPreview t) = ok @ p # rest
        \<and> (\<forall>x \<in> set ok. cloudinary_destroy e x ''raw'' = None)
        \<and> cloudinary_destroy e p ''raw'' = Some err \<longrightarrow>
      deleteTakeoff e i st =
        (\<lparr>status = 500, body = ErrorBody (message err)\<rparr>, st,
         map (\<lambda>x. Destroy x ''raw'') (ok @ [p])))"
proof -
  have absent: "findById i st = None \<longrightarrow>
      deleteTakeoff e i st =
        (\<lparr>status = 404, body = ErrorBody ''Takeoff not found''\<rparr>, st, [])"
    by (simp add: deleteTakeoff_def)
  have all_ok: "findById i st = Some t
        \<and> (\<forall>p \<in> set (remote_ids (files t @ pdfPreview t)).
              cloudinary_destroy e p ''raw'' = None) \<longrightarrow>
      deleteTakeoff e i st =
        (\<lparr>status = 200, body = MessageBody ''Takeoff deleted''\<rparr>,
         st\<lparr>takeoffs := remove_first i (takeoffs st)\<rparr>,
         map (\<lambda>p. Destroy p ''raw'') (remote_ids (files t @ pdfPreview t)) @ [DeleteOne i])"
  proof (intro impI, elim conjE)
    assume found: "findById i st = Some t"
      and ok: "\<forall>p \<in> set (remote_ids (files t @ pdfPreview t)).
              cloudinary_destroy e p ''raw'' = None"
    from found have id: "takeoff_id t = i" by (rule findById_id)
    from found destroy_each_ok[OF ok] show "deleteTakeoff e i st =
        (\<lparr>status = 200, body = MessageBody ''Takeoff deleted''\<rparr>,
         st\<lparr>takeoffs := remove_first i (takeoffs st)\<rparr>,
         map (\<lambda>p. Destroy p ''raw'') (remote_ids (files t @ pdfPreview t)) @ [DeleteOne i])"
      by (simp add: deleteTakeoff_def deleteTakeoff_try_one_loop deleteOne_def id)
  qed
  have failed: "findById i st = Some t
        \<and> remote_ids (files t @ pdfPreview t) = ok @ p # rest
        \<and> (\<forall>x \<in> set ok. cloudinary_destroy e x ''raw'' = None)
        \<and> cloudinary_destroy e p ''raw'' = Some err \<longrightarrow>
      deleteTakeoff e i st =
        (\<lparr>status = 500, body = ErrorBody (message err)\<rparr>, st,
         map (\<lambda>x. Destroy x ''raw'') (ok @ [p]))"
  proof (intro impI, elim conjE)
    assume found: "findById i st = Some t"
      and ids: "remote_ids (files t @ pdfPreview t) = ok @ p # rest"
      and ok: "\<forall>x \<in> set ok. cloudinary_destroy e x ''raw'' = None"
      and bad: "cloudinary_destroy e p ''raw'' = Some err"
    from found destroy_each_fails[OF ids ok bad] show "deleteTakeoff e i st =
        (\<lparr>status = 500, body = ErrorBody (message err)\<rparr>, st,
         map (\<lambda>x. Destroy x ''raw'') (ok @ [p]))"
      by (simp add: deleteTakeoff_def deleteTakeoff_try_one_loop)
  qed
  from absent all_ok failed show ?thesis by (intro conjI)
qed

lemma demo_findById: "findById ''id1'' demo_store = Some demo_takeoff"
  by (simp add: findById_def demo_store_def demo_takeoff_def)

lemma demo_remote_ids:
  "remote_ids (files demo_takeoff @ pdfPreview demo_takeoff) = [''takeoffs/a'', ''takeoffs/b'']"
  by (simp add: remote_ids_def demo_takeoff_def demo_attachment_def truthy_def)

theorem deleteTakeoff_destroys_then_removes_witness:
  "deleteTakeoff demo_env ''id2'' demo_store =
     (\<lparr>status = 404, body = ErrorBody ''Takeoff not found''\<rparr>, demo_store, [])
   \<and> deleteTakeoff demo_env ''id1'' demo_store =
     (\<lparr>status = 200, body = MessageBody ''Takeoff deleted''\<rparr>,
      \<lparr>takeoffs = [], users = []\<rparr>,
      [Destroy ''takeoffs/a'' ''raw'', Destroy ''takeoffs/b'' ''raw'', DeleteOne ''id1''])
   \<and> deleteTakeoff demo_env_down ''id1'' demo_store =
     (\<lparr>status = 500, body = ErrorBody ''down''\<rparr>, demo_store, [Destroy ''takeoffs/a'' ''raw''])"
proof -
  have absent: "findById ''id2'' demo_store = None"
    by (simp add: findById_def demo_store_def demo_takeoff_def)
  have rm: "demo_store\<lparr>takeoffs := remove_first ''id1'' (takeoffs demo_store)\<rparr>
      = \<lparr>takeoffs = [], users = []\<rparr>"
    by (simp add: demo_store_def demo_takeoff_def)
  from deleteTakeoff_destroys_then_removes
    [where i = "''id2''" and st = demo_store and e = demo_env] absent
  have one: "deleteTakeoff demo_env ''id2'' demo_store =
     (\<lparr>status = 404, body = ErrorBody ''Takeoff not found''\<rparr>, demo_store, [])"
    by simp
  from deleteTakeoff_destroys_then_removes
    [where i = "''id1''" and st = demo_store and e = demo_env and t = demo_takeoff]
    demo_findById
  have two: "deleteTakeoff demo_env ''id1'' demo_store =
     (\<lparr>status = 200, body = MessageBody ''Takeoff deleted''\<rparr>,
      \<lparr>takeoffs = [], users = []\<rparr>,
      [Destroy ''takeoffs/a'' ''raw'', Destroy ''takeoffs/b'' ''raw'', DeleteOne ''id1''])"
    by (simp add: demo_remote_ids rm demo_env_def)
  from deleteTakeoff_destroys_then_removes
    [where i = "''id1''" and st = demo_store and e = demo_env_down and t = demo_takeoff
       and ok = "[]" and p = "''takeoffs/a''" and rest = "[''takeoffs/b'']"
       and err = "OtherError ''down''"]
    demo_findById
  have three: "deleteTakeoff demo_env_down ''id1'' demo_store =
     (\<lparr>status = 500, body = ErrorBody ''down''\<rparr>, demo_store, [Destroy ''takeoffs/a'' ''raw''])"
    by (simp add: demo_remote_ids demo_env_down_def)
  from one two three show ?thesis by (intro conjI)
qed

text \<open>Claim C1 as stated fails: a record with three attachments, one of them without a
  remote id (the case that the guard of the loops is written for), is removed after two
  remote deletions.\<close>

theorem deleteTakeoff_skips_attachment_without_id:
  "findById ''id1'' demo_store = Some demo_takeoff
   \<and> length (files demo_takeoff @ pdfPreview demo_takeoff) = 3
   \<and> deleteTakeoff demo_env ''id1'' demo_store =
     (\<lparr>status = 200, body = MessageBody ''Takeoff deleted''\<rparr>,
      \<lparr>takeoffs = [], users = []\<rparr>,
      [Destroy ''takeoffs/a'' ''raw'', Destroy ''takeoffs/b'' ''raw'', DeleteOne ''id1''])"
  by (simp add: deleteTakeoff_def deleteTakeoff_try_def findById_def destroy_attachment_def
      deleteOne_def demo_store_def demo_takeoff_def demo_attachment_def demo_env_def truthy_def
      io_return_def)

section \<open>Evaluating the examples\<close>

lemmas handler_defs =
  io_return_def io_throw_def io_catch_def truthy_def
  uploadToCloudinary_def uploadBufferToCloudinary_def generatePdfPreview_try_def
  generatePdfPreview_def safeDeleteFile_def local_path_def new_attachment_def
  upload_preview_def process_file_def process_pdfPreview_def field_files_def
  parse_if_string_def findById_def validate_def validate_update_def save_def
  findByIdAndUpdate_def apply_update_def
  set_if_supplied_def set_if_defined_def new_Takeoff_def new_update_def
  createTakeoff_try_def createTakeoff_def updateTakeoff_try_def updateTakeoff_def
  getTakeoffById_def populate_def respond_error_def

lemmas demo_defs =
  demo_env_def demo_store_def demo_takeoff_def demo_attachment_def demo_body_def
  demo_file_def demo_files_def demo_query_def

section \<open>Updating a record\<close>

lemma takeoff_id_apply_update [simp]: "takeoff_id (apply_update u t) = takeoff_id t"
  by (simp add: apply_update_def)

lemma find_update_first:
  "(\<And>t. takeoff_id (f t) = takeoff_id t) \<Longrightarrow>
   find (\<lambda>t. takeoff_id t = j) (update_first i f ts) =
     (if j = i then map_option f (find (\<lambda>t. takeoff_id t = i) ts)
      else find (\<lambda>t. takeoff_id t = j) ts)"
  by (induction ts) auto

lemma findById_update_first:
  "findById j (st\<lparr>takeoffs := update_first i (apply_update u) (takeoffs st)\<rparr>) =
     (if j = i then map_option (apply_update u) (findById i st) else findById j st)"
  by (simp add: findById_def find_update_first)

lemma findByIdAndUpdate_found:
  assumes "findById i st = Some t" and "findByIdAndUpdate e i u st = (Inr (x, st'), tr)"
  shows "x = Some (apply_update u t)"
    and "st' = st\<lparr>takeoffs := update_first i (apply_update u) (takeoffs st)\<rparr>"
  using assms by (auto simp: findByIdAndUpdate_def io_throw_def split: option.splits)

text \<open>
  Claim C2. An update of an existing record keeps the attachments that the record has:
  afterwards each of the two collections is the old collection followed by the
  attachments uploaded by this request (none when the request fails), and no other
  record changes.
\<close>

theorem updateTakeoff_appends_attachments:
  assumes "findById i st = Some t" and "updateTakeoff e i b rf st = (r, st', tr)"
  shows "\<exists>t' fs ps.
           findById i st' = Some t'
           \<and> files t' = files t @ fs \<and> pdfPreview t' = pdfPreview t @ ps
           \<and> (status r = 200 \<longrightarrow>
                body r = TakeoffBody t'
                \<and> fst (io_each (process_file e) (field_files rf files_field)) = Inr fs
                \<and> fst (io_each (process_pdfPreview e) (field_files rf pdfPreview_field)) = Inr ps)
           \<and> (status r \<noteq> 200 \<longrightarrow> st' = st \<and> fs = [] \<and> ps = [])
           \<and> (\<forall>j. j \<noteq> i \<longrightarrow> findById j st' = findById j st)"
proof (cases "fst (updateTakeoff_try e i b rf st)")
  case (Inl err)
  then obtain tr0 where "updateTakeoff_try e i b rf st = (Inl err, tr0)"
    by (cases "updateTakeoff_try e i b rf st") simp
  with assms(2) have "st' = st" and "r = respond_error err"
    by (simp_all add: updateTakeoff_def)
  moreover have "status (respond_error err) \<noteq> 200"
    by (cases err) (simp_all add: respond_error_def)
  ultimately show ?thesis using assms(1) by auto
next
  case (Inr res)
  obtain x st'' where res: "res = (x, st'')" by (cases res)
  with Inr obtain tr0 where tryeq: "updateTakeoff_try e i b rf st = (Inr (x, st''), tr0)"
    by (cases "updateTakeoff_try e i b rf st") simp
  from tryeq obtain fs tr1 ps tr3 tr4 where
    fs: "io_each (process_file e) (field_files rf files_field) = (Inr fs, tr1)"
    and ps: "io_each (process_pdfPreview e) (field_files rf pdfPreview_field) = (Inr ps, tr3)"
    and upd: "findByIdAndUpdate e i (new_update e b fs ps) st = (Inr (x, st''), tr4)"
    unfolding updateTakeoff_try_def by (elim io_bind_InrE) blast
  let ?u = "new_update e b fs ps"
  from findByIdAndUpdate_found[OF assms(1) upd]
  have x: "x = Some (apply_update ?u t)"
    and st'': "st'' = st\<lparr>takeoffs := update_first i (apply_update ?u) (takeoffs st)\<rparr>"
    by simp_all
  from assms(2) tryeq x have r: "r = \<lparr>status = 200, body = TakeoffBody (apply_update ?u t)\<rparr>"
    and st': "st' = st''"
    by (simp_all add: updateTakeoff_def)
  have found: "findById i st' = Some (apply_update ?u t)"
    using assms(1) by (simp add: st' st'' findById_update_first)
  have others: "\<forall>j. j \<noteq> i \<longrightarrow> findById j st' = findById j st"
    by (simp add: st' st'' findById_update_first)
  have "files (apply_update ?u t) = files t @ fs"
    and "pdfPreview (apply_update ?u t) = pdfPreview t @ ps"
    by (simp_all add: apply_update_def new_update_def)
  with found others r fs ps show ?thesis by auto
qed


theorem updateTakeoff_appends_attachments_witness:
  "findById ''id1'' demo_store = Some demo_takeoff
   \<and> status (fst (updateTakeoff demo_env ''id1'' demo_body (Some demo_files) demo_store)) = 200
   \<and> (\<exists>t' fs ps.
         findById ''id1''
           (fst (snd (updateTakeoff demo_env ''id1'' demo_body (Some demo_files) demo_store)))
           = Some t'
         \<and> files t' = files demo_takeoff @ fs \<and> pdfPreview t' = pdfPreview demo_takeoff @ ps
         \<and> length fs = 1 \<and> length ps = 1)"
proof -
  obtain r st' tr where run:
    "updateTakeoff demo_env ''id1'' demo_body (Some demo_files) demo_store = (r, st', tr)"
    by (cases "updateTakeoff demo_env ''id1'' demo_body (Some demo_files) demo_store")
  have "status (fst (updateTakeoff demo_env ''id1'' demo_body (Some demo_files) demo_store)) = 200"
    by (simp add: handler_defs demo_defs)
  with run have ok: "status r = 200" by simp
  have one: "\<exists>a. fst (io_each (process_file demo_env) (field_files (Some demo_files) files_field))
      = Inr [a]"
    by (simp add: handler_defs demo_defs)
  have two: "\<exists>a. fst (io_each (process_pdfPreview demo_env)
      (field_files (Some demo_files) pdfPreview_field)) = Inr [a]"
    by (simp add: handler_defs demo_defs)
  from updateTakeoff_appends_attachments[OF demo_findById run] ok one two
  have "\<exists>t' fs ps. findById ''id1'' st' = Some t'
         \<and> files t' = files demo_takeoff @ fs \<and> pdfPreview t' = pdfPreview demo_takeoff @ ps
         \<and> length fs = 1 \<and> length ps = 1"
    by (metis One_nat_def length_Cons list.size(3) sum.inject(2))
  with run ok demo_findById show ?thesis by simp
qed

section \<open>The upload loops\<close>

lemma io_each_Inr:
  "io_each f xs = (Inr ys, tr) \<Longrightarrow> list_all2 (\<lambda>x y. \<exists>t. f x = (Inr y, t)) xs ys"
proof (induction xs arbitrary: ys tr)
  case Nil
  then show ?case by (simp add: io_return_def)
next
  case (Cons x xs)
  from Cons.prems obtain y t1 ys' t2 where
    "f x = (Inr y, t1)" "io_each f xs = (Inr ys', t2)" "ys = y # ys'"
    by (auto simp: io_return_def elim!: io_bind_InrE)
  with Cons.IH show ?case by auto
qed

lemma generatePdfPreview_value:
  "generatePdfPreview e pdfPath outputPath =
     (if \<not> isServerless e \<and> \<not> fs_existsSync e pdfPath then (Inr None, [])
      else
        (Inr (case pdf_convert e pdfPath (path_dirname e outputPath) of
                Inr (Pages (p # ps)) \<Rightarrow>
                  (case page_name p of
                     None \<Rightarrow> None
                   | Some n \<Rightarrow> Some (path_join e [path_dirname e outputPath, n]))
              | _ \<Rightarrow> None),
         [Convert pdfPath (path_dirname e outputPath)]))"
  by (simp add: generatePdfPreview_def generatePdfPreview_try_def io_catch_def io_return_def
      io_throw_def io_bind_def split: sum.splits option.splits list.splits page_data.splits)

lemma uploadToCloudinary_Inr:
  "fst (uploadToCloudinary e p rt folder) = Inr res \<Longrightarrow>
     (isServerless e \<or> fs_existsSync e p) \<and> cloudinary_upload e p rt folder = Inr res
     \<and> snd (uploadToCloudinary e p rt folder) = [Upload p rt folder]"
  by (auto simp: uploadToCloudinary_def io_throw_def split: if_splits)

lemma local_path_events: "snd (local_path e file) = []"
  by (simp add: local_path_def io_return_def io_throw_def split: option.splits)

lemma process_pdfPreview_isPdf:
  assumes "process_pdfPreview e pdf = (Inr a, tr)"
  shows "isPdf a"
proof -
  from assms have "fst (process_pdfPreview e pdf) = Inr a" by simp
  then show ?thesis
    by (cases "isServerless e")
       (auto simp: process_pdfPreview_def fst_io_bind io_return_def new_attachment_def
          split: sum.splits)
qed

lemma process_pdfPreview_no_url:
  assumes "process_pdfPreview e pdf = (Inr a, tr)"
    and "isServerless e \<or> mimetype pdf \<noteq> ''application/pdf''"
  shows "firstPagePreviewUrl a = None"
proof -
  from assms(1) have "fst (process_pdfPreview e pdf) = Inr a" by simp
  with assms(2) show ?thesis
    by (cases "isServerless e")
       (auto simp: process_pdfPreview_def fst_io_bind io_return_def new_attachment_def
          split: sum.splits)
qed

lemma process_pdfPreview_no_convert:
  assumes "\<not> isServerless e" and "mimetype pdf \<noteq> ''application/pdf''"
  shows "Convert p d \<notin> set (snd (process_pdfPreview e pdf))"
  using assms
  by (auto simp: process_pdfPreview_def snd_io_bind fst_io_bind local_path_def
      uploadToCloudinary_def safeDeleteFile_def io_return_def io_throw_def
      split: option.splits sum.splits)

lemma process_pdfPreview_convert:
  assumes "\<not> isServerless e" and "mimetype pdf = ''application/pdf''"
    and "local_path e pdf = (Inr fp, [])"
    and "fst (uploadToCloudinary e fp ''raw'' ''takeoffs'') = Inr res"
  shows "Convert fp (path_dirname e fp) \<in> set (snd (process_pdfPreview e pdf))"
proof -
  from uploadToCloudinary_Inr[OF assms(4)] assms(1) have ex: "fs_existsSync e fp" by simp
  then have "snd (generatePdfPreview e fp fp) = [Convert fp (path_dirname e fp)]"
    by (simp add: generatePdfPreview_value)
  then have "Convert fp (path_dirname e fp) \<in> set (snd (upload_preview e fp))"
    by (simp add: upload_preview_def snd_io_bind split: sum.splits)
  with assms(1-4) show ?thesis
    by (simp add: process_pdfPreview_def snd_io_bind split: sum.splits)
qed

lemma process_pdfPreview_Inr_disk:
  assumes "\<not> isServerless e" and "process_pdfPreview e pdf = (Inr a, tr)"
  shows "\<exists>fp res. local_path e pdf = (Inr fp, [])
           \<and> fst (uploadToCloudinary e fp ''raw'' ''takeoffs'') = Inr res"
proof -
  from assms obtain p t1 res t2 where
    p: "local_path e pdf = (Inr p, t1)"
    and up: "uploadToCloudinary e p ''raw'' ''takeoffs'' = (Inr res, t2)"
    unfolding process_pdfPreview_def
    by (auto simp: io_return_def elim!: io_bind_InrE)
  from p local_path_events[of e pdf] have "t1 = []" by simp
  with p up show ?thesis by auto
qed

lemma createTakeoff_201:
  assumes "createTakeoff e b rf st = (r, st', tr)" and "status r = 201"
  shows "\<exists>fs ps tr1 tr2.
           io_each (process_file e) (field_files rf files_field) = (Inr fs, tr1)
           \<and> io_each (process_pdfPreview e) (field_files rf pdfPreview_field) = (Inr ps, tr2)
           \<and> validate e (new_Takeoff e b fs ps) = None
           \<and> findById (new_ObjectId e) st = None
           \<and> r = \<lparr>status = 201, body = TakeoffBody (new_Takeoff e b fs ps)\<rparr>
           \<and> st' = st\<lparr>takeoffs := takeoffs st @ [new_Takeoff e b fs ps]\<rparr>"
proof (cases "fst (createTakeoff_try e b rf st)")
  case (Inl err)
  then obtain tr0 where "createTakeoff_try e b rf st = (Inl err, tr0)"
    by (cases "createTakeoff_try e b rf st") simp
  with assms(1) have "r = respond_error err" by (simp add: createTakeoff_def)
  moreover have "status (respond_error err) \<noteq> 201"
    by (cases err) (simp_all add: respond_error_def)
  ultimately show ?thesis using assms(2) by simp
next
  case (Inr res)
  obtain t st'' where "res = (t, st'')" by (cases res)
  with Inr obtain tr0 where tryeq: "createTakeoff_try e b rf st = (Inr (t, st''), tr0)"
    by (cases "createTakeoff_try e b rf st") simp
  then obtain fs tr1 ps tr2 st3 tr3 where
    fs: "io_each (process_file e) (field_files rf files_field) = (Inr fs, tr1)"
    and ps: "io_each (process_pdfPreview e) (field_files rf pdfPreview_field) = (Inr ps, tr2)"
    and sv: "save e (new_Takeoff e b fs ps) st = (Inr st3, tr3)"
    and t: "t = new_Takeoff e b fs ps" and st3: "st'' = st3"
    unfolding createTakeoff_try_def
    by (auto simp: io_return_def elim!: io_bind_InrE)
  from sv have "validate e (new_Takeoff e b fs ps) = None"
    and "findById (takeoff_id (new_Takeoff e b fs ps)) st = None"
    and "st3 = st\<lparr>takeoffs := takeoffs st @ [new_Takeoff e b fs ps]\<rparr>"
    by (auto simp: save_def io_throw_def split: option.splits if_splits)
  moreover have "takeoff_id (new_Takeoff e b fs ps) = new_ObjectId e"
    by (simp add: new_Takeoff_def)
  moreover from assms(1) tryeq have "r = \<lparr>status = 201, body = TakeoffBody t\<rparr>" "st' = st''"
    by (simp_all add: createTakeoff_def)
  ultimately show ?thesis using fs ps t st3 by auto
qed

lemma createTakeoff_accepts:
  assumes "io_each (process_file e) (field_files rf files_field) = (Inr fs, tr1)"
    and "io_each (process_pdfPreview e) (field_files rf pdfPreview_field) = (Inr ps, tr2)"
    and "validate e (new_Takeoff e b fs ps) = None"
    and "findById (new_ObjectId e) st = None"
  shows "createTakeoff e b rf st =
     (\<lparr>status = 201, body = TakeoffBody (new_Takeoff e b fs ps)\<rparr>,
      st\<lparr>takeoffs := takeoffs st @ [new_Takeoff e b fs ps]\<rparr>,
      tr1 @ tr2 @ [Save (new_ObjectId e)])"
proof -
  have id: "takeoff_id (new_Takeoff e b fs ps) = new_ObjectId e"
    by (simp add: new_Takeoff_def)
  show ?thesis
    using assms
    by (simp add: createTakeoff_def createTakeoff_try_def save_def id io_return_def)
qed

lemma updateTakeoff_accepts:
  assumes "io_each (process_file e) (field_files rf files_field) = (Inr fs, tr1)"
    and "io_each (process_pdfPreview e) (field_files rf pdfPreview_field) = (Inr ps, tr2)"
    and "validate_update e (new_update e b fs ps) = None"
    and "findById i st = Some t"
  shows "updateTakeoff e i b rf st =
     (\<lparr>status = 200, body = TakeoffBody (apply_update (new_update e b fs ps) t)\<rparr>,
      st\<lparr>takeoffs := update_first i (apply_update (new_update e b fs ps)) (takeoffs st)\<rparr>,
      tr1 @ tr2 @ [FindByIdAndUpdate i])"
  using assms
  by (simp add: updateTakeoff_def updateTakeoff_try_def findByIdAndUpdate_def)

lemma updateTakeoff_200:
  assumes "updateTakeoff e i b rf st = (r, st', tr)" and "status r = 200"
  shows "\<exists>fs ps tr1 tr2 t.
           io_each (process_file e) (field_files rf files_field) = (Inr fs, tr1)
           \<and> io_each (process_pdfPreview e) (field_files rf pdfPreview_field) = (Inr ps, tr2)
           \<and> validate_update e (new_update e b fs ps) = None
           \<and> findById i st = Some t
           \<and> r = \<lparr>status = 200, body = TakeoffBody (apply_update (new_update e b fs ps) t)\<rparr>
           \<and> st' = st\<lparr>takeoffs := update_first i (apply_update (new_update e b fs ps)) (takeoffs st)\<rparr>"
proof (cases "fst (updateTakeoff_try e i b rf st)")
  case (Inl err)
  then obtain tr0 where "updateTakeoff_try e i b rf st = (Inl err, tr0)"
    by (cases "updateTakeoff_try e i b rf st") simp
  with assms(1) have "r = respond_error err" by (simp add: updateTakeoff_def)
  moreover have "status (respond_error err) \<noteq> 200"
    by (cases err) (simp_all add: respond_error_def)
  ultimately show ?thesis using assms(2) by simp
next
  case (Inr res)
  obtain x st'' where "res = (x, st'')" by (cases res)
  with Inr obtain tr0 where tryeq: "updateTakeoff_try e i b rf st = (Inr (x, st''), tr0)"
    by (cases "updateTakeoff_try e i b rf st") simp
  from tryeq obtain fs tr1 ps tr3 tr4 where
    fs: "io_each (process_file e) (field_files rf files_field) = (Inr fs, tr1)"
    and ps: "io_each (process_pdfPreview e) (field_files rf pdfPreview_field) = (Inr ps, tr3)"
    and upd: "findByIdAndUpdate e i (new_update e b fs ps) st = (Inr (x, st''), tr4)"
    unfolding updateTakeoff_try_def by (elim io_bind_InrE) blast
  from assms tryeq obtain t' where x: "x = Some t'" and r: "r = \<lparr>status = 200, body = TakeoffBody t'\<rparr>"
    and st': "st' = st''"
    by (cases x) (auto simp: updateTakeoff_def)
  from upd x have chk: "validate_update e (new_update e b fs ps) = None"
    by (auto simp: findByIdAndUpdate_def io_throw_def split: option.splits)
  from upd x chk obtain t where t: "findById i st = Some t"
    by (cases "findById i st") (auto simp: findByIdAndUpdate_def)
  from findByIdAndUpdate_found[OF t upd] x r st' fs ps chk t show ?thesis by auto
qed

lemma io_each_pdfPreview:
  assumes "io_each (process_pdfPreview e) pdfs = (Inr as, tr)"
  shows "list_all2 (\<lambda>pdf a. isPdf a
           \<and> (isServerless e \<or> mimetype pdf \<noteq> ''application/pdf'' \<longrightarrow>
                firstPagePreviewUrl a = None)) pdfs as"
proof -
  from io_each_Inr[OF assms]
  have "list_all2 (\<lambda>x y. \<exists>t. process_pdfPreview e x = (Inr y, t)) pdfs as" .
  then show ?thesis
    by (rule list_all2_mono)
       (auto intro: process_pdfPreview_isPdf process_pdfPreview_no_url)
qed

text \<open>
  Claim C4, as amended. A file of the \<^verbatim>\<open>pdfPreview\<close> group is stored with
  \<^verbatim>\<open>isPdf = true\<close> whatever its declared MIME type, on create and on update. In disk
  mode, once the file itself is uploaded, the first-page preview is generated for it
  exactly when the declared MIME type is \<^verbatim>\<open>application/pdf\<close>: with another MIME type the
  renderer is never called and the attachment has no preview URL.
\<close>

theorem pdfPreview_isPdf_preview_by_mimetype:
  "(process_pdfPreview e pdf = (Inr a, tr) \<longrightarrow> isPdf a)
   \<and> (\<not> isServerless e \<and> process_pdfPreview e pdf = (Inr a, tr) \<longrightarrow>
        ((\<exists>p d. Convert p d \<in> set tr) \<longleftrightarrow> mimetype pdf = ''application/pdf''))
   \<and> (\<not> isServerless e \<and> mimetype pdf = ''application/pdf''
        \<and> local_path e pdf = (Inr fp, [])
        \<and> fst (uploadToCloudinary e fp ''raw'' ''takeoffs'') = Inr res \<longrightarrow>
        Convert fp (path_dirname e fp) \<in> set (snd (process_pdfPreview e pdf)))
   \<and> (\<not> isServerless e \<and> mimetype pdf \<noteq> ''application/pdf'' \<longrightarrow>
        (\<forall>p d. Convert p d \<notin> set (snd (process_pdfPreview e pdf))))
   \<and> (mimetype pdf \<noteq> ''application/pdf'' \<and> process_pdfPreview e pdf = (Inr a, tr) \<longrightarrow>
        firstPagePreviewUrl a = None)
   \<and> (createTakeoff e b rf st = (r, st', tr') \<and> status r = 201 \<longrightarrow>
        (\<exists>t. body r = TakeoffBody t
           \<and> list_all2
               (\<lambda>pdf a. isPdf a
                  \<and> (isServerless e \<or> mimetype pdf \<noteq> ''application/pdf'' \<longrightarrow>
                       firstPagePreviewUrl a = None))
               (field_files rf pdfPreview_field) (pdfPreview t)))
   \<and> (updateTakeoff e i b rf st = (r, st', tr') \<and> status r = 200 \<longrightarrow>
        (\<exists>old t ps. findById i st = Some old \<and> body r = TakeoffBody t
           \<and> pdfPreview t = pdfPreview old @ ps
           \<and> list_all2
               (\<lambda>pdf a. isPdf a
                  \<and> (isServerless e \<or> mimetype pdf \<noteq> ''application/pdf'' \<longrightarrow>
                       firstPagePreviewUrl a = None))
               (field_files rf pdfPreview_field) ps))"
proof -
  have one: "process_pdfPreview e pdf = (Inr a, tr) \<longrightarrow> isPdf a"
    by (blast intro: process_pdfPreview_isPdf)
  have four: "\<not> isServerless e \<and> mimetype pdf \<noteq> ''application/pdf'' \<longrightarrow>
        (\<forall>p d. Convert p d \<notin> set (snd (process_pdfPreview e pdf)))"
    by (blast dest: process_pdfPreview_no_convert)
  have three: "\<not> isServerless e \<and> mimetype pdf = ''application/pdf''
        \<and> local_path e pdf = (Inr fp, [])
        \<and> fst (uploadToCloudinary e fp ''raw'' ''takeoffs'') = Inr res \<longrightarrow>
        Convert fp (path_dirname e fp) \<in> set (snd (process_pdfPreview e pdf))"
    by (blast intro: process_pdfPreview_convert)
  have two: "\<not> isServerless e \<and> process_pdfPreview e pdf = (Inr a, tr) \<longrightarrow>
        ((\<exists>p d. Convert p d \<in> set tr) \<longleftrightarrow> mimetype pdf = ''application/pdf'')"
  proof (intro impI, elim conjE)
    assume disk: "\<not> isServerless e" and run: "process_pdfPreview e pdf = (Inr a, tr)"
    show "(\<exists>p d. Convert p d \<in> set tr) \<longleftrightarrow> mimetype pdf = ''application/pdf''"
    proof
      assume "\<exists>p d. Convert p d \<in> set tr"
      with run have "\<exists>p d. Convert p d \<in> set (snd (process_pdfPreview e pdf))" by simp
      with disk four show "mimetype pdf = ''application/pdf''" by blast
    next
      assume mime: "mimetype pdf = ''application/pdf''"
      from process_pdfPreview_Inr_disk[OF disk run] obtain p res' where
        "local_path e pdf = (Inr p, [])"
        "fst (uploadToCloudinary e p ''raw'' ''takeoffs'') = Inr res'"
        by blast
      from process_pdfPreview_convert[OF disk mime this] run
      show "\<exists>p d. Convert p d \<in> set tr" by auto
    qed
  qed
  have five: "mimetype pdf \<noteq> ''application/pdf'' \<and> process_pdfPreview e pdf = (Inr a, tr) \<longrightarrow>
        firstPagePreviewUrl a = None"
    by (blast intro: process_pdfPreview_no_url)
  have six: "createTakeoff e b rf st = (r, st', tr') \<and> status r = 201 \<longrightarrow>
        (\<exists>t. body r = TakeoffBody t
           \<and> list_all2
               (\<lambda>pdf a. isPdf a
                  \<and> (isServerless e \<or> mimetype pdf \<noteq> ''application/pdf'' \<longrightarrow>
                       firstPagePreviewUrl a = None))
               (field_files rf pdfPreview_field) (pdfPreview t))"
  proof (intro impI, elim conjE)
    assume "createTakeoff e b rf st = (r, st', tr')" and "status r = 201"
    from createTakeoff_201[OF this] obtain fs ps tr1 tr2 where
      ps: "io_each (process_pdfPreview e) (field_files rf pdfPreview_field) = (Inr ps, tr2)"
      and r: "r = \<lparr>status = 201, body = TakeoffBody (new_Takeoff e b fs ps)\<rparr>"
      by blast
    have "pdfPreview (new_Takeoff e b fs ps) = ps" by (simp add: new_Takeoff_def)
    with io_each_pdfPreview[OF ps] r
    show "\<exists>t. body r = TakeoffBody t
           \<and> list_all2
               (\<lambda>pdf a. isPdf a
                  \<and> (isServerless e \<or> mimetype pdf \<noteq> ''application/pdf'' \<longrightarrow>
                       firstPagePreviewUrl a = None))
               (field_files rf pdfPreview_field) (pdfPreview t)"
      by simp
  qed
  have seven: "updateTakeoff e i b rf st = (r, st', tr') \<and> status r = 200 \<longrightarrow>
        (\<exists>old t ps. findById i st = Some old \<and> body r = TakeoffBody t
           \<and> pdfPreview t = pdfPreview old @ ps
           \<and> list_all2
               (\<lambda>pdf a. isPdf a
                  \<and> (isServerless e \<or> mimetype pdf \<noteq> ''application/pdf'' \<longrightarrow>
                       firstPagePreviewUrl a = None))
               (field_files rf pdfPreview_field) ps)"
  proof (intro impI, elim conjE)
    assume "updateTakeoff e i b rf st = (r, st', tr')" and "status r = 200"
    from updateTakeoff_200[OF this] obtain fs ps tr1 tr2 t0 where
      ps: "io_each (process_pdfPreview e) (field_files rf pdfPreview_field) = (Inr ps, tr2)"
      and t0: "findById i st = Some t0"
      and r: "r = \<lparr>status = 200, body = TakeoffBody (apply_update (new_update e b fs ps) t0)\<rparr>"
      by blast
    have "pdfPreview (apply_update (new_update e b fs ps) t0) = pdfPreview t0 @ ps"
      by (simp add: apply_update_def new_update_def)
    with io_each_pdfPreview[OF ps] t0 r
    show "\<exists>old t ps. findById i st = Some old \<and> body r = TakeoffBody t
           \<and> pdfPreview t = pdfPreview old @ ps
           \<and> list_all2
               (\<lambda>pdf a. isPdf a
                  \<and> (isServerless e \<or> mimetype pdf \<noteq> ''application/pdf'' \<longrightarrow>
                       firstPagePreviewUrl a = None))
               (field_files rf pdfPreview_field) ps"
      by auto
  qed
  from one two three four five six seven show ?thesis by (intro conjI)
qed

lemma demo_process_pdf:
  "process_pdfPreview demo_env (demo_file ''application/pdf'') =
       (Inr \<lparr>filename = ''f1'', originalName = ''scan'', size_att = 3,
             cloudinaryPublicId = Some ''takeoffs/up/f1'',
             cloudinaryUrl = Some ''https://cdn/takeoffs/up/f1'',
             resourceType = ''raw'', uploadDate = 7, firstPagePreviewUrl = None,
             isPdf = True\<rparr>,
        [Upload ''/up/f1'' ''raw'' ''takeoffs'', Convert ''/up/f1'' ''/up'', Unlink ''/up/f1''])"
  by (simp add: handler_defs demo_defs)

lemma demo_process_other:
  "mime \<noteq> ''application/pdf'' \<Longrightarrow>
   process_pdfPreview demo_env (demo_file mime) =
       (Inr \<lparr>filename = ''f1'', originalName = ''scan'', size_att = 3,
             cloudinaryPublicId = Some ''takeoffs/up/f1'',
             cloudinaryUrl = Some ''https://cdn/takeoffs/up/f1'',
             resourceType = ''raw'', uploadDate = 7, firstPagePreviewUrl = None,
             isPdf = True\<rparr>,
        [Upload ''/up/f1'' ''raw'' ''takeoffs'', Unlink ''/up/f1''])"
  by (simp add: handler_defs demo_defs)

theorem pdfPreview_isPdf_preview_by_mimetype_witness:
  "\<not> isServerless demo_env
   \<and> (\<exists>a tr. process_pdfPreview demo_env (demo_file ''application/pdf'') = (Inr a, tr)
        \<and> isPdf a \<and> (\<exists>p d. Convert p d \<in> set tr))
   \<and> Convert ''/up/f1'' ''/up''
        \<in> set (snd (process_pdfPreview demo_env (demo_file ''application/pdf'')))
   \<and> (\<forall>p d. Convert p d \<notin> set (snd (process_pdfPreview demo_env (demo_file ''text/plain''))))
   \<and> (\<exists>a tr. process_pdfPreview demo_env (demo_file ''text/plain'') = (Inr a, tr)
        \<and> isPdf a \<and> firstPagePreviewUrl a = None)
   \<and> (\<exists>t a. body (fst (createTakeoff demo_env demo_body (Some demo_files) demo_store))
            = TakeoffBody t
        \<and> pdfPreview t = [a] \<and> isPdf a \<and> firstPagePreviewUrl a = None)
   \<and> (\<exists>t a. body (fst (updateTakeoff demo_env ''id1'' demo_body (Some demo_files) demo_store))
            = TakeoffBody t
        \<and> pdfPreview t = pdfPreview demo_takeoff @ [a] \<and> isPdf a
        \<and> firstPagePreviewUrl a = None)"
proof -
  have disk: "\<not> isServerless demo_env" by (simp add: demo_env_def)
  have mime: "mimetype (demo_file ''application/pdf'') = ''application/pdf''"
    and other: "mimetype (demo_file ''text/plain'') \<noteq> ''application/pdf''"
    and png: "mimetype (demo_file ''image/png'') \<noteq> ''application/pdf''"
    by (simp_all add: demo_file_def)
  have plain: "''text/plain'' \<noteq> ''application/pdf''" by simp
  obtain a tr where a: "process_pdfPreview demo_env (demo_file ''application/pdf'') = (Inr a, tr)"
    using demo_process_pdf by blast
  obtain a2 tr2 where a2: "process_pdfPreview demo_env (demo_file ''text/plain'') = (Inr a2, tr2)"
    using demo_process_other[OF plain] by blast
  have lp: "local_path demo_env (demo_file ''application/pdf'') = (Inr ''/up/f1'', [])"
    and up: "fst (uploadToCloudinary demo_env ''/up/f1'' ''raw'' ''takeoffs'') =
      Inr \<lparr>public_id = ''takeoffs/up/f1'', secure_url = ''https://cdn/takeoffs/up/f1''\<rparr>"
    and dir: "path_dirname demo_env ''/up/f1'' = ''/up''"
    by (simp_all add: handler_defs demo_defs)
  note pdf = pdfPreview_isPdf_preview_by_mimetype
    [where e = demo_env and pdf = "demo_file ''application/pdf''" and a = a and tr = tr
       and fp = "''/up/f1''"
       and res = "\<lparr>public_id = ''takeoffs/up/f1'', secure_url = ''https://cdn/takeoffs/up/f1''\<rparr>"]
  note nopdf = pdfPreview_isPdf_preview_by_mimetype
    [where e = demo_env and pdf = "demo_file ''text/plain''" and a = a2 and tr = tr2]
  from pdf disk a mime
  have first: "isPdf a \<and> (\<exists>p d. Convert p d \<in> set tr)" by blast
  from pdf disk mime lp up dir
  have second: "Convert ''/up/f1'' ''/up''
      \<in> set (snd (process_pdfPreview demo_env (demo_file ''application/pdf'')))"
    by simp
  from nopdf disk other
  have third: "\<forall>p d. Convert p d \<notin> set (snd (process_pdfPreview demo_env (demo_file ''text/plain'')))"
    by blast
  from nopdf a2 other
  have fourth: "isPdf a2 \<and> firstPagePreviewUrl a2 = None" by blast
  have fld: "field_files (Some demo_files) pdfPreview_field = [demo_file ''image/png'']"
    by (simp add: field_files_def demo_files_def)
  obtain r st' tr' where cr:
    "createTakeoff demo_env demo_body (Some demo_files) demo_store = (r, st', tr')"
    by (cases "createTakeoff demo_env demo_body (Some demo_files) demo_store")
  have "status (fst (createTakeoff demo_env demo_body (Some demo_files) demo_store)) = 201"
    by (simp add: handler_defs demo_defs)
  with cr have c201: "status r = 201" by simp
  from pdfPreview_isPdf_preview_by_mimetype
    [where e = demo_env and b = demo_body and rf = "Some demo_files" and st = demo_store
       and r = r and st' = st' and tr' = tr'] cr c201
  obtain t where t: "body r = TakeoffBody t"
    and l: "list_all2
               (\<lambda>pdf a. isPdf a
                  \<and> (isServerless demo_env \<or> mimetype pdf \<noteq> ''application/pdf'' \<longrightarrow>
                       firstPagePreviewUrl a = None))
               (field_files (Some demo_files) pdfPreview_field) (pdfPreview t)"
    by blast
  from l png have fifth: "\<exists>a. pdfPreview t = [a] \<and> isPdf a \<and> firstPagePreviewUrl a = None"
    unfolding fld by (auto simp: list_all2_Cons1)
  obtain r2 st2 tr2' where upd:
    "updateTakeoff demo_env ''id1'' demo_body (Some demo_files) demo_store = (r2, st2, tr2')"
    by (cases "updateTakeoff demo_env ''id1'' demo_body (Some demo_files) demo_store")
  have "status (fst (updateTakeoff demo_env ''id1'' demo_body (Some demo_files) demo_store)) = 200"
    by (simp add: handler_defs demo_defs)
  with upd have u200: "status r2 = 200" by simp
  from pdfPreview_isPdf_preview_by_mimetype
    [where e = demo_env and b = demo_body and rf = "Some demo_files" and st = demo_store
       and i = "''id1''" and r = r2 and st' = st2 and tr' = tr2'] upd u200
  obtain old t2 ps where "findById ''id1'' demo_store = Some old" "body r2 = TakeoffBody t2"
    "pdfPreview t2 = pdfPreview old @ ps"
    and l2: "list_all2
               (\<lambda>pdf a. isPdf a
                  \<and> (isServerless demo_env \<or> mimetype pdf \<noteq> ''application/pdf'' \<longrightarrow>
                       firstPagePreviewUrl a = None))
               (field_files (Some demo_files) pdfPreview_field) ps"
    by blast
  with demo_findById png
  have sixth: "\<exists>a. body r2 = TakeoffBody t2 \<and> pdfPreview t2 = pdfPreview demo_takeoff @ [a]
      \<and> isPdf a \<and> firstPagePreviewUrl a = None"
    unfolding fld by (auto simp: list_all2_Cons1)
  from disk a first second third a2 fourth cr t fifth upd sixth show ?thesis by auto
qed

text \<open>Claim C4 as stated fails: in disk mode a file of the \<^verbatim>\<open>pdfPreview\<close> group
  declared as \<^verbatim>\<open>image/png\<close> is uploaded and deleted locally, and the renderer is not
  called; the same file declared as \<^verbatim>\<open>application/pdf\<close> is handed to the renderer.\<close>

theorem pdfPreview_png_not_rendered:
  "\<not> isServerless demo_env
   \<and> process_pdfPreview demo_env (demo_file ''image/png'') =
       (Inr \<lparr>filename = ''f1'', originalName = ''scan'', size_att = 3,
             cloudinaryPublicId = Some ''takeoffs/up/f1'',
             cloudinaryUrl = Some ''https://cdn/takeoffs/up/f1'',
             resourceType = ''raw'', uploadDate = 7, firstPagePreviewUrl = None,
             isPdf = True\<rparr>,
        [Upload ''/up/f1'' ''raw'' ''takeoffs'', Unlink ''/up/f1''])
   \<and> snd (process_pdfPreview demo_env (demo_file ''application/pdf'')) =
       [Upload ''/up/f1'' ''raw'' ''takeoffs'', Convert ''/up/f1'' ''/up'', Unlink ''/up/f1'']"
  by (simp add: handler_defs demo_defs)

section \<open>The preview generator\<close>

lemma generatePdfPreview_never_raises:
  "\<exists>r tr. generatePdfPreview e pdfPath outputPath = (Inr r, tr)"
  by (simp add: generatePdfPreview_value)

text \<open>
  Claim C9. The result of the generator is a value in every case (the lemma above), and
  the buffer variant returns \<^verbatim>\<open>null\<close> with no call to the outside. But in disk mode,
  for a file that exists and that the renderer converts, the generator does not return
  the path of the preview that was generated: the renderer resolves with the object of
  the page it wrote, the test \<^verbatim>\<open>pageData.length > 0\<close> fails on that object, and the
  result is \<^verbatim>\<open>null\<close>; the attachment of the file is stored without a preview URL.
  Only for an array of pages, which is not what the renderer resolves with, would the
  path come back.
\<close>

theorem generatePdfPreview_page_object_gives_null:
  "\<not> isServerless demo_env
   \<and> fs_existsSync demo_env ''/up/f1''
   \<and> pdf_convert demo_env ''/up/f1'' ''/up'' = Inr (OnePage \<lparr>page_name = Some ''preview.1.png''\<rparr>)
   \<and> generatePdfPreview demo_env ''/up/f1'' ''/up/f1'' = (Inr None, [Convert ''/up/f1'' ''/up''])
   \<and> generatePdfPreview demo_env_pages ''/up/f1'' ''/up/f1'' =
       (Inr (Some ''/up/preview.1.png''), [Convert ''/up/f1'' ''/up''])
   \<and> generatePdfPreviewFromBuffer demo_env None ''scan'' = (Inr None, [])
   \<and> process_file demo_env (demo_file ''application/pdf'') =
       (Inr \<lparr>filename = ''f1'', originalName = ''scan'', size_att = 3,
             cloudinaryPublicId = Some ''takeoffs/up/f1'',
             cloudinaryUrl = Some ''https://cdn/takeoffs/up/f1'',
             resourceType = ''raw'', uploadDate = 7, firstPagePreviewUrl = None,
             isPdf = True\<rparr>,
        [Upload ''/up/f1'' ''raw'' ''takeoffs'', Convert ''/up/f1'' ''/up'', Unlink ''/up/f1''])"
  by (simp add: handler_defs demo_defs demo_env_pages_def generatePdfPreviewFromBuffer_def)

section \<open>Decoding the structured fields\<close>

lemma find_snoc:
  "find P (xs @ [x]) = (case find P xs of Some y \<Rightarrow> Some y | None \<Rightarrow> if P x then Some x else None)"
  by (induction xs) auto

lemma features_populate [simp]: "features (populate st t) = features t"
  by (simp add: populate_def split: creator.splits option.splits)

lemma validate_free_form:
  "validate e (new_Takeoff e (b\<lparr>features_b := f, specifications_b := sp, tags_b := tg\<rparr>) fs ps)
     = validate e (new_Takeoff e b fs ps)"
  by (simp add: validate_def new_Takeoff_def)

lemma validate_update_free_form:
  "validate_update e
     (new_update e (b\<lparr>features_b := f, specifications_b := sp, tags_b := tg\<rparr>) fs ps)
     = validate_update e (new_update e b fs ps)"
  by (simp add: validate_update_def new_update_def)

lemma createTakeoff_201_iff:
  "status (fst (createTakeoff e b rf st)) = 201 \<longleftrightarrow>
     (\<exists>fs tr1 ps tr2.
        io_each (process_file e) (field_files rf files_field) = (Inr fs, tr1)
        \<and> io_each (process_pdfPreview e) (field_files rf pdfPreview_field) = (Inr ps, tr2)
        \<and> validate e (new_Takeoff e b fs ps) = None
        \<and> findById (new_ObjectId e) st = None)"
proof
  assume ok: "status (fst (createTakeoff e b rf st)) = 201"
  obtain r st' tr where run: "createTakeoff e b rf st = (r, st', tr)"
    by (cases "createTakeoff e b rf st")
  with ok have "status r = 201" by simp
  from createTakeoff_201[OF run this]
  show "\<exists>fs tr1 ps tr2.
        io_each (process_file e) (field_files rf files_field) = (Inr fs, tr1)
        \<and> io_each (process_pdfPreview e) (field_files rf pdfPreview_field) = (Inr ps, tr2)
        \<and> validate e (new_Takeoff e b fs ps) = None
        \<and> findById (new_ObjectId e) st = None"
    by blast
next
  assume "\<exists>fs tr1 ps tr2.
        io_each (process_file e) (field_files rf files_field) = (Inr fs, tr1)
        \<and> io_each (process_pdfPreview e) (field_files rf pdfPreview_field) = (Inr ps, tr2)
        \<and> validate e (new_Takeoff e b fs ps) = None
        \<and> findById (new_ObjectId e) st = None"
  then obtain fs tr1 ps tr2 where
    "io_each (process_file e) (field_files rf files_field) = (Inr fs, tr1)"
    "io_each (process_pdfPreview e) (field_files rf pdfPreview_field) = (Inr ps, tr2)"
    "validate e (new_Takeoff e b fs ps) = None"
    "findById (new_ObjectId e) st = None"
    by blast
  from createTakeoff_accepts[OF this] show "status (fst (createTakeoff e b rf st)) = 201"
    by simp
qed

lemma updateTakeoff_200_iff:
  "status (fst (updateTakeoff e i b rf st)) = 200 \<longleftrightarrow>
     (\<exists>fs tr1 ps tr2 t.
        io_each (process_file e) (field_files rf files_field) = (Inr fs, tr1)
        \<and> io_each (process_pdfPreview e) (field_files rf pdfPreview_field) = (Inr ps, tr2)
        \<and> validate_update e (new_update e b fs ps) = None
        \<and> findById i st = Some t)"
proof
  assume ok: "status (fst (updateTakeoff e i b rf st)) = 200"
  obtain r st' tr where run: "updateTakeoff e i b rf st = (r, st', tr)"
    by (cases "updateTakeoff e i b rf st")
  with ok have "status r = 200" by simp
  from updateTakeoff_200[OF run this]
  show "\<exists>fs tr1 ps tr2 t.
        io_each (process_file e) (field_files rf files_field) = (Inr fs, tr1)
        \<and> io_each (process_pdfPreview e) (field_files rf pdfPreview_field) = (Inr ps, tr2)
        \<and> validate_update e (new_update e b fs ps) = None
        \<and> findById i st = Some t"
    by blast
next
  assume "\<exists>fs tr1 ps tr2 t.
        io_each (process_file e) (field_files rf files_field) = (Inr fs, tr1)
        \<and> io_each (process_pdfPreview e) (field_files rf pdfPreview_field) = (Inr ps, tr2)
        \<and> validate_update e (new_update e b fs ps) = None
        \<and> findById i st = Some t"
  then obtain fs tr1 ps tr2 t where
    "io_each (process_file e) (field_files rf files_field) = (Inr fs, tr1)"
    "io_each (process_pdfPreview e) (field_files rf pdfPreview_field) = (Inr ps, tr2)"
    "validate_update e (new_update e b fs ps) = None"
    "findById i st = Some t"
    by blast
  from updateTakeoff_accepts[OF this] show "status (fst (updateTakeoff e i b rf st)) = 200"
    by simp
qed

lemma created_is_stored:
  assumes "createTakeoff e b rf st = (r, st', tr)" and "status r = 201"
  shows "\<exists>fs ps. r = \<lparr>status = 201, body = TakeoffBody (new_Takeoff e b fs ps)\<rparr>
           \<and> findById (new_ObjectId e) st' = Some (new_Takeoff e b fs ps)"
proof -
  from createTakeoff_201[OF assms] obtain fs ps where
    fresh: "findById (new_ObjectId e) st = None"
    and r: "r = \<lparr>status = 201, body = TakeoffBody (new_Takeoff e b fs ps)\<rparr>"
    and st': "st' = st\<lparr>takeoffs := takeoffs st @ [new_Takeoff e b fs ps]\<rparr>"
    by blast
  have id: "takeoff_id (new_Takeoff e b fs ps) = new_ObjectId e" by (simp add: new_Takeoff_def)
  from fresh have "findById (new_ObjectId e) st' = Some (new_Takeoff e b fs ps)"
    by (simp add: findById_def st' id find_snoc)
  with r show ?thesis by blast
qed

lemma updated_is_stored:
  assumes "updateTakeoff e i b rf st = (r, st', tr)" and "status r = 200"
  shows "\<exists>fs ps old. findById i st = Some old
           \<and> r = \<lparr>status = 200, body = TakeoffBody (apply_update (new_update e b fs ps) old)\<rparr>
           \<and> findById i st' = Some (apply_update (new_update e b fs ps) old)"
proof -
  from updateTakeoff_200[OF assms] obtain fs ps old where
    old: "findById i st = Some old"
    and r: "r = \<lparr>status = 200, body = TakeoffBody (apply_update (new_update e b fs ps) old)\<rparr>"
    and st': "st' = st\<lparr>takeoffs := update_first i (apply_update (new_update e b fs ps)) (takeoffs st)\<rparr>"
    by blast
  from old have "findById i st' = Some (apply_update (new_update e b fs ps) old)"
    by (simp add: st' findById_update_first)
  with old r show ?thesis by blast
qed

text \<open>
  Claim C6. When \<^verbatim>\<open>features\<close> is supplied as text that the parser decodes to an array,
  the created record carries that array, and reading the record back by its id gives the
  same array. A text of \<^verbatim>\<open>features\<close>, \<^verbatim>\<open>specifications\<close> or \<^verbatim>\<open>tags\<close> that fails to
  decode raises nothing and is not a reason to refuse the request: whether create is
  answered 201, and update 200, does not depend on what the three fields hold, so a
  request with malformed text is accepted exactly when the same request with any other
  value of the field is; and the record that is then stored, returned and read back holds
  the text itself in that field.
\<close>

theorem features_roundtrip_and_fallback:
  "(features_b b = JStr s \<and> JSON_parse e s = Inr (JArr xs)
      \<and> createTakeoff e b rf st = (r, st', tr) \<and> status r = 201 \<longrightarrow>
      (\<exists>t. body r = TakeoffBody t \<and> features t = JArr xs
         \<and> (\<exists>t'. getTakeoffById (takeoff_id t) st' = \<lparr>status = 200, body = TakeoffBody t'\<rparr>
               \<and> features t' = JArr xs)))
   \<and> (status (fst (createTakeoff e
          (b\<lparr>features_b := f, specifications_b := sp, tags_b := tg\<rparr>) rf st)) = 201
        \<longleftrightarrow> status (fst (createTakeoff e b rf st)) = 201)
   \<and> (status (fst (updateTakeoff e i
          (b\<lparr>features_b := f, specifications_b := sp, tags_b := tg\<rparr>) rf st)) = 200
        \<longleftrightarrow> status (fst (updateTakeoff e i b rf st)) = 200)
   \<and> (JSON_parse e s = Inl err \<and> createTakeoff e b rf st = (r, st', tr) \<and> status r = 201 \<longrightarrow>
        (\<exists>t. body r = TakeoffBody t \<and> findById (takeoff_id t) st' = Some t
           \<and> (features_b b = JStr s \<longrightarrow> features t = JStr s)
           \<and> (specifications_b b = JStr s \<longrightarrow> specifications t = JStr s)
           \<and> (tags_b b = JStr s \<longrightarrow> tags t = JStr s)))
   \<and> (JSON_parse e s = Inl err \<and> updateTakeoff e i b rf st = (r, st', tr) \<and> status r = 200 \<longrightarrow>
        (\<exists>t. body r = TakeoffBody t \<and> findById i st' = Some t
           \<and> (features_b b = JStr s \<longrightarrow> features t = JStr s)
           \<and> (specifications_b b = JStr s \<longrightarrow> specifications t = JStr s)
           \<and> (tags_b b = JStr s \<longrightarrow> tags t = JStr s)))"
proof -
  have roundtrip: "features_b b = JStr s \<and> JSON_parse e s = Inr (JArr xs)
      \<and> createTakeoff e b rf st = (r, st', tr) \<and> status r = 201 \<longrightarrow>
      (\<exists>t. body r = TakeoffBody t \<and> features t = JArr xs
         \<and> (\<exists>t'. getTakeoffById (takeoff_id t) st' = \<lparr>status = 200, body = TakeoffBody t'\<rparr>
               \<and> features t' = JArr xs))"
  proof (intro impI, elim conjE)
    assume given: "features_b b = JStr s" and parsed: "JSON_parse e s = Inr (JArr xs)"
      and run: "createTakeoff e b rf st = (r, st', tr)" and ok: "status r = 201"
    from created_is_stored[OF run ok] obtain fs ps where
      r: "r = \<lparr>status = 201, body = TakeoffBody (new_Takeoff e b fs ps)\<rparr>"
      and stored: "findById (new_ObjectId e) st' = Some (new_Takeoff e b fs ps)"
      by blast
    let ?t = "new_Takeoff e b fs ps"
    have id: "takeoff_id ?t = new_ObjectId e" by (simp add: new_Takeoff_def)
    have feat: "features ?t = JArr xs"
      using given parsed by (simp add: new_Takeoff_def parse_if_string_def)
    from stored have "getTakeoffById (takeoff_id ?t) st' =
        \<lparr>status = 200, body = TakeoffBody (populate st' ?t)\<rparr>"
      by (simp add: getTakeoffById_def id)
    with feat r show "\<exists>t. body r = TakeoffBody t \<and> features t = JArr xs
         \<and> (\<exists>t'. getTakeoffById (takeoff_id t) st' = \<lparr>status = 200, body = TakeoffBody t'\<rparr>
               \<and> features t' = JArr xs)"
      by simp
  qed
  have create_any: "status (fst (createTakeoff e
          (b\<lparr>features_b := f, specifications_b := sp, tags_b := tg\<rparr>) rf st)) = 201
        \<longleftrightarrow> status (fst (createTakeoff e b rf st)) = 201"
    by (simp only: createTakeoff_201_iff validate_free_form)
  have update_any: "status (fst (updateTakeoff e i
          (b\<lparr>features_b := f, specifications_b := sp, tags_b := tg\<rparr>) rf st)) = 200
        \<longleftrightarrow> status (fst (updateTakeoff e i b rf st)) = 200"
    by (simp only: updateTakeoff_200_iff validate_update_free_form)
  have create_raw: "JSON_parse e s = Inl err \<and> createTakeoff e b rf st = (r, st', tr)
        \<and> status r = 201 \<longrightarrow>
        (\<exists>t. body r = TakeoffBody t \<and> findById (takeoff_id t) st' = Some t
           \<and> (features_b b = JStr s \<longrightarrow> features t = JStr s)
           \<and> (specifications_b b = JStr s \<longrightarrow> specifications t = JStr s)
           \<and> (tags_b b = JStr s \<longrightarrow> tags t = JStr s))"
  proof (intro impI, elim conjE)
    assume bad: "JSON_parse e s = Inl err"
      and run: "createTakeoff e b rf st = (r, st', tr)" and ok: "status r = 201"
    from created_is_stored[OF run ok] obtain fs ps where
      r: "r = \<lparr>status = 201, body = TakeoffBody (new_Takeoff e b fs ps)\<rparr>"
      and stored: "findById (new_ObjectId e) st' = Some (new_Takeoff e b fs ps)"
      by blast
    let ?t = "new_Takeoff e b fs ps"
    have id: "takeoff_id ?t = new_ObjectId e" by (simp add: new_Takeoff_def)
    have "features_b b = JStr s \<longrightarrow> features ?t = JStr s"
      and "specifications_b b = JStr s \<longrightarrow> specifications ?t = JStr s"
      and "tags_b b = JStr s \<longrightarrow> tags ?t = JStr s"
      using bad by (simp_all add: new_Takeoff_def parse_if_string_def)
    with r stored id show "\<exists>t. body r = TakeoffBody t \<and> findById (takeoff_id t) st' = Some t
           \<and> (features_b b = JStr s \<longrightarrow> features t = JStr s)
           \<and> (specifications_b b = JStr s \<longrightarrow> specifications t = JStr s)
           \<and> (tags_b b = JStr s \<longrightarrow> tags t = JStr s)"
      by simp
  qed
  have update_raw: "JSON_parse e s = Inl err \<and> updateTakeoff e i b rf st = (r, st', tr)
        \<and> status r = 200 \<longrightarrow>
        (\<exists>t. body r = TakeoffBody t \<and> findById i st' = Some t
           \<and> (features_b b = JStr s \<longrightarrow> features t = JStr s)
           \<and> (specifications_b b = JStr s \<longrightarrow> specifications t = JStr s)
           \<and> (tags_b b = JStr s \<longrightarrow> tags t = JStr s))"
  proof (intro impI, elim conjE)
    assume bad: "JSON_parse e s = Inl err"
      and run: "updateTakeoff e i b rf st = (r, st', tr)" and ok: "status r = 200"
    from updated_is_stored[OF run ok] obtain fs ps old where
      r: "r = \<lparr>status = 200, body = TakeoffBody (apply_update (new_update e b fs ps) old)\<rparr>"
      and stored: "findById i st' = Some (apply_update (new_update e b fs ps) old)"
      by blast
    let ?t = "apply_update (new_update e b fs ps) old"
    have "features_b b = JStr s \<longrightarrow> features ?t = JStr s"
      and "specifications_b b = JStr s \<longrightarrow> specifications ?t = JStr s"
      and "tags_b b = JStr s \<longrightarrow> tags ?t = JStr s"
      using bad
      by (simp_all add: new_update_def apply_update_def set_if_defined_def parse_if_string_def)
    with r stored show "\<exists>t. body r = TakeoffBody t \<and> findById i st' = Some t
           \<and> (features_b b = JStr s \<longrightarrow> features t = JStr s)
           \<and> (specifications_b b = JStr s \<longrightarrow> specifications t = JStr s)
           \<and> (tags_b b = JStr s \<longrightarrow> tags t = JStr s)"
      by simp
  qed
  from roundtrip create_any update_any create_raw update_raw show ?thesis by (intro conjI)
qed

theorem features_roundtrip_and_fallback_witness:
  "status (fst (createTakeoff demo_env demo_body (Some demo_files) demo_store)) = 201
   \<and> (\<exists>t t'. body (fst (createTakeoff demo_env demo_body (Some demo_files) demo_store))
          = TakeoffBody t
        \<and> features t = JArr [JNum 1, JNum 2]
        \<and> getTakeoffById (takeoff_id t)
            (fst (snd (createTakeoff demo_env demo_body (Some demo_files) demo_store)))
          = \<lparr>status = 200, body = TakeoffBody t'\<rparr>
        \<and> features t' = JArr [JNum 1, JNum 2])
   \<and> specifications_b demo_body = JStr ''{oops''
   \<and> JSON_parse demo_env ''{oops'' = Inl (OtherError ''Unexpected token'')
   \<and> (\<exists>t. body (fst (createTakeoff demo_env demo_body (Some demo_files) demo_store))
          = TakeoffBody t
        \<and> specifications t = JStr ''{oops''
        \<and> findById (takeoff_id t)
            (fst (snd (createTakeoff demo_env demo_body (Some demo_files) demo_store))) = Some t)
   \<and> status (fst (updateTakeoff demo_env ''id1'' demo_body (Some demo_files) demo_store)) = 200
   \<and> (\<exists>t. body (fst (updateTakeoff demo_env ''id1'' demo_body (Some demo_files) demo_store))
          = TakeoffBody t
        \<and> specifications t = JStr ''{oops''
        \<and> findById ''id1''
            (fst (snd (updateTakeoff demo_env ''id1'' demo_body (Some demo_files) demo_store)))
          = Some t)"
proof -
  let ?plain = "demo_body\<lparr>specifications_b := JUndefined\<rparr>"
  have same: "?plain\<lparr>features_b := JStr ''[1,2]'', specifications_b := JStr ''{oops'',
      tags_b := JUndefined\<rparr> = demo_body"
    by (simp add: demo_body_def)
  have plain_c: "status (fst (createTakeoff demo_env ?plain (Some demo_files) demo_store)) = 201"
    and plain_u: "status (fst (updateTakeoff demo_env ''id1'' ?plain (Some demo_files)
        demo_store)) = 200"
    by (simp_all add: handler_defs demo_defs)
  note any = features_roundtrip_and_fallback
    [where e = demo_env and b = ?plain and rf = "Some demo_files" and st = demo_store
       and i = "''id1''" and f = "JStr ''[1,2]''" and sp = "JStr ''{oops''" and tg = JUndefined]
  from any plain_c have c201:
    "status (fst (createTakeoff demo_env demo_body (Some demo_files) demo_store)) = 201"
    unfolding same by blast
  from any plain_u have u200:
    "status (fst (updateTakeoff demo_env ''id1'' demo_body (Some demo_files) demo_store)) = 200"
    unfolding same by blast
  obtain r st' tr where run:
    "createTakeoff demo_env demo_body (Some demo_files) demo_store = (r, st', tr)"
    by (cases "createTakeoff demo_env demo_body (Some demo_files) demo_store")
  with c201 have ok: "status r = 201" by simp
  obtain r2 st2 tr2 where upd:
    "updateTakeoff demo_env ''id1'' demo_body (Some demo_files) demo_store = (r2, st2, tr2)"
    by (cases "updateTakeoff demo_env ''id1'' demo_body (Some demo_files) demo_store")
  with u200 have ok2: "status r2 = 200" by simp
  have feat: "features_b demo_body = JStr ''[1,2]''"
    and spec: "specifications_b demo_body = JStr ''{oops''"
    by (simp_all add: demo_body_def)
  have good: "JSON_parse demo_env ''[1,2]'' = Inr (JArr [JNum 1, JNum 2])"
    and bad: "JSON_parse demo_env ''{oops'' = Inl (OtherError ''Unexpected token'')"
    by (simp_all add: demo_env_def)
  from features_roundtrip_and_fallback
    [where e = demo_env and b = demo_body and rf = "Some demo_files" and st = demo_store
       and s = "''[1,2]''" and xs = "[JNum 1, JNum 2]" and r = r and st' = st' and tr = tr]
    feat good run ok
  have one: "\<exists>t t'. body r = TakeoffBody t \<and> features t = JArr [JNum 1, JNum 2]
       \<and> getTakeoffById (takeoff_id t) st' = \<lparr>status = 200, body = TakeoffBody t'\<rparr>
       \<and> features t' = JArr [JNum 1, JNum 2]"
    by blast
  from features_roundtrip_and_fallback
    [where e = demo_env and b = demo_body and rf = "Some demo_files" and st = demo_store
       and s = "''{oops''" and err = "OtherError ''Unexpected token''" and r = r and st' = st'
       and tr = tr]
    bad run ok spec
  have two: "\<exists>t. body r = TakeoffBody t \<and> specifications t = JStr ''{oops''
      \<and> findById (takeoff_id t) st' = Some t"
    by blast
  from features_roundtrip_and_fallback
    [where e = demo_env and b = demo_body and rf = "Some demo_files" and st = demo_store
       and i = "''id1''" and s = "''{oops''" and err = "OtherError ''Unexpected token''"
       and r = r2 and st' = st2 and tr = tr2]
    bad upd ok2 spec
  have three: "\<exists>t. body r2 = TakeoffBody t \<and> specifications t = JStr ''{oops''
      \<and> findById ''id1'' st2 = Some t"
    by blast
  from c201 u200 run upd one two three spec bad show ?thesis by simp
qed

section \<open>Pagination\<close>

lemma length_sort_takeoffs [simp]: "length (sort_takeoffs opt ts) = length ts"
  by (cases opt) simp_all

lemma populate_demo_takeoff: "populate demo_store demo_takeoff = demo_takeoff"
  by (simp add: populate_def demo_takeoff_def)

text \<open>
  Claim C7, as amended. With a page number of at least 1 and a page size of at least 1
  (1 and 9 when absent), the answer is 200 with the records of the filtered and sorted
  sequence that follow the first \<open>(page - 1) * limit\<close>, at most \<open>limit\<close> of them: the
  record at position \<open>k\<close> of the page is the one at position \<open>(page - 1) * limit + k\<close>
  of the sequence. A page past the end is the empty array.
\<close>

theorem getAllTakeoffs_page:
  "find_takeoffs e (build_filter e q) (takeoffs st) = Inr found
   \<and> page = (case page_q q of None \<Rightarrow> 1 | Some n \<Rightarrow> n)
   \<and> limit = (case limit_q q of None \<Rightarrow> 9 | Some n \<Rightarrow> n)
   \<and> ordered = sort_takeoffs (sort_option_of (sort_q q)) found
   \<and> 1 \<le> page \<and> 1 \<le> limit \<longrightarrow>
   (\<exists>ts. getAllTakeoffs e q st = \<lparr>status = 200, body = TakeoffsBody ts\<rparr>
      \<and> ts = map (populate st) (take (nat limit) (drop (nat ((page - 1) * limit)) ordered))
      \<and> length ts = min (nat limit) (length found - nat ((page - 1) * limit))
      \<and> (\<forall>k < length ts. ts ! k = populate st (ordered ! (nat ((page - 1) * limit) + k)))
      \<and> (length found \<le> nat ((page - 1) * limit) \<longrightarrow> ts = []))"
proof (intro impI, elim conjE)
  assume found: "find_takeoffs e (build_filter e q) (takeoffs st) = Inr found"
    and page: "page = (case page_q q of None \<Rightarrow> 1 | Some n \<Rightarrow> n)"
    and limit: "limit = (case limit_q q of None \<Rightarrow> 9 | Some n \<Rightarrow> n)"
    and ordered: "ordered = sort_takeoffs (sort_option_of (sort_q q)) found"
    and p1: "1 \<le> page" and l1: "1 \<le> limit"
  let ?skip = "nat ((page - 1) * limit)"
  let ?ts = "map (populate st) (take (nat limit) (drop ?skip ordered))"
  from p1 l1 have nonneg: "0 \<le> (page - 1) * limit" by simp
  from l1 have abs: "\<bar>limit\<bar> = limit" and nz: "limit \<noteq> 0" by simp_all
  have run: "getAllTakeoffs e q st = \<lparr>status = 200, body = TakeoffsBody ?ts\<rparr>"
    using found nonneg abs nz
    by (simp add: getAllTakeoffs_def Let_def skip_limit_def page[symmetric] limit[symmetric]
        ordered[symmetric])
  have len: "length ?ts = min (nat limit) (length found - ?skip)"
    by (simp add: ordered min.commute)
  have nth: "\<forall>k < length ?ts. ?ts ! k = populate st (ordered ! (?skip + k))"
    by (auto simp: nth_drop)
  have past: "length found \<le> ?skip \<longrightarrow> ?ts = []"
    by (simp add: ordered)
  from run len nth past
  show "\<exists>ts. getAllTakeoffs e q st = \<lparr>status = 200, body = TakeoffsBody ts\<rparr>
      \<and> ts = map (populate st) (take (nat limit) (drop (nat ((page - 1) * limit)) ordered))
      \<and> length ts = min (nat limit) (length found - nat ((page - 1) * limit))
      \<and> (\<forall>k < length ts. ts ! k = populate st (ordered ! (nat ((page - 1) * limit) + k)))
      \<and> (length found \<le> nat ((page - 1) * limit) \<longrightarrow> ts = [])"
    by blast
qed

lemma populate_demo_priced: "populate st (demo_priced i p) = demo_priced i p"
  by (simp add: populate_def demo_priced_def demo_takeoff_def)

lemma demo_find_all:
  "find_takeoffs e (build_filter e (demo_query\<lparr>page_q := pg, limit_q := lm, sort_q := srt\<rparr>))
     (takeoffs demo_store3) = Inr (takeoffs demo_store3)"
  by (simp add: find_takeoffs_def build_filter_def demo_query_def truthy_def matches_fields_def)

lemma demo_sort_price:
  "sort_takeoffs (sort_option_of (Some ''price_asc'')) (takeoffs demo_store3) =
     [demo_priced ''b'' 10, demo_priced ''c'' 20, demo_priced ''a'' 30]"
  by (simp add: sort_option_of_def demo_store3_def demo_priced_def)

theorem getAllTakeoffs_page_witness:
  "getAllTakeoffs demo_env
     (demo_query\<lparr>page_q := Some 2, limit_q := Some 1, sort_q := Some ''price_asc''\<rparr>)
     demo_store3 = \<lparr>status = 200, body = TakeoffsBody [demo_priced ''c'' 20]\<rparr>
   \<and> getAllTakeoffs demo_env
     (demo_query\<lparr>page_q := Some 4, limit_q := Some 1, sort_q := Some ''price_asc''\<rparr>)
     demo_store3 = \<lparr>status = 200, body = TakeoffsBody []\<rparr>"
proof -
  let ?q = "\<lambda>n. demo_query\<lparr>page_q := Some n, limit_q := Some 1, sort_q := Some ''price_asc''\<rparr>"
  let ?ordered = "[demo_priced ''b'' 10, demo_priced ''c'' 20, demo_priced ''a'' 30]"
  have q: "page_q (?q n) = Some n" "limit_q (?q n) = Some 1" "sort_q (?q n) = Some ''price_asc''"
    for n by simp_all
  from getAllTakeoffs_page
    [where e = demo_env and q = "?q 2" and st = demo_store3 and found = "takeoffs demo_store3"
       and page = 2 and limit = 1 and ordered = ?ordered]
    demo_find_all demo_sort_price
  have "getAllTakeoffs demo_env (?q 2) demo_store3 =
      \<lparr>status = 200, body = TakeoffsBody (map (populate demo_store3)
        (take (nat 1) (drop (nat ((2 - 1) * 1)) ?ordered)))\<rparr>"
    by (simp add: q)
  then have second: "getAllTakeoffs demo_env (?q 2) demo_store3 =
      \<lparr>status = 200, body = TakeoffsBody [demo_priced ''c'' 20]\<rparr>"
    by (simp add: populate_demo_priced)
  from getAllTakeoffs_page
    [where e = demo_env and q = "?q 4" and st = demo_store3 and found = "takeoffs demo_store3"
       and page = 4 and limit = 1 and ordered = ?ordered]
    demo_find_all demo_sort_price
  have "getAllTakeoffs demo_env (?q 4) demo_store3 =
      \<lparr>status = 200, body = TakeoffsBody (map (populate demo_store3)
        (take (nat 1) (drop (nat ((4 - 1) * 1)) ?ordered)))\<rparr>"
    by (simp add: q)
  then have fourth: "getAllTakeoffs demo_env (?q 4) demo_store3 =
      \<lparr>status = 200, body = TakeoffsBody []\<rparr>"
    by simp
  from second fourth show ?thesis by simp
qed

text \<open>Claim C7 as stated fails for a page size of 0, which the store reads as no limit:
  the positions 1 to 0 are no position, and the answer holds all three records. A page
  number of 0 makes the skip negative, and the answer is 500.\<close>

theorem getAllTakeoffs_limit_zero_is_no_limit:
  "getAllTakeoffs demo_env (demo_query\<lparr>limit_q := Some 0\<rparr>) demo_store3 =
     \<lparr>status = 200,
      body = TakeoffsBody [demo_priced ''a'' 30, demo_priced ''b'' 10, demo_priced ''c'' 20]\<rparr>
   \<and> status (getAllTakeoffs demo_env (demo_query\<lparr>page_q := Some 0\<rparr>) demo_store3) = 500"
  by (simp add: getAllTakeoffs_def find_takeoffs_def build_filter_def demo_query_def truthy_def
      matches_fields_def sort_option_of_def skip_limit_def demo_store3_def populate_def
      demo_priced_def demo_takeoff_def)

section \<open>Filtering by project type\<close>

lemma matches_fields_type:
  "ty \<noteq> [] \<Longrightarrow>
   matches_fields (build_filter e (q\<lparr>type_q := Some ty\<rparr>)) t =
     (matches_fields (build_filter e (q\<lparr>type_q := None\<rparr>)) t
      \<and> (case projectType t of
            None \<Rightarrow> False
          | Some p \<Rightarrow> p \<in> set (map (\<lambda>x. toLowerCase e (trim e x)) (split CHR '','' ty))))"
  by (auto simp: matches_fields_def build_filter_def truthy_def split: option.splits)

lemma or_regex_type [simp]:
  "or_regex (build_filter e (q\<lparr>type_q := v\<rparr>)) = or_regex (build_filter e q)"
  by (simp add: build_filter_def)

lemma find_takeoffs_type:
  assumes "ty \<noteq> []"
  shows "find_takeoffs e (build_filter e (q\<lparr>type_q := Some ty\<rparr>)) ts =
        map_sum id
          (filter (\<lambda>t. case projectType t of
                          None \<Rightarrow> False
                        | Some p \<Rightarrow>
                            p \<in> set (map (\<lambda>x. toLowerCase e (trim e x)) (split CHR '','' ty))))
          (find_takeoffs e (build_filter e (q\<lparr>type_q := None\<rparr>)) ts)"
proof -
  have m: "matches_fields (build_filter e (q\<lparr>type_q := Some ty\<rparr>)) =
      (\<lambda>t. matches_fields (build_filter e (q\<lparr>type_q := None\<rparr>)) t
         \<and> (case projectType t of
               None \<Rightarrow> False
             | Some p \<Rightarrow>
                 p \<in> set (map (\<lambda>x. toLowerCase e (trim e x)) (split CHR '','' ty))))"
    by (rule ext) (rule matches_fields_type[OF assms])
  show ?thesis
  proof (cases "or_regex (build_filter e q)")
    case None
    then show ?thesis by (simp add: find_takeoffs_def m)
  next
    case (Some pat)
    show ?thesis
    proof (cases "regex_of e pat ''i''")
      case (Inl err)
      with Some show ?thesis by (simp add: find_takeoffs_def)
    next
      case (Inr r)
      with Some show ?thesis
        by (auto simp: find_takeoffs_def m intro!: filter_cong)
    qed
  qed
qed

lemma find_takeoffs_subset:
  "find_takeoffs e f ts = Inr found \<Longrightarrow> set found \<subseteq> set ts"
  by (auto simp: find_takeoffs_def split: option.splits sum.splits)

text \<open>
  Claim C3, as amended. With a \<^verbatim>\<open>type\<close> parameter the records found are those of the
  same query without it whose stored project type is one of the listed types, after these
  were trimmed and put in lower case. So the casing of the query values does not matter:
  two lists whose entries agree up to case, one by one, give the same answer. And over
  records whose stored project types are in lower case, a record is found exactly when
  its project type equals one of the trimmed listed types up to case.
\<close>

theorem type_filter_lowered_membership:
  "(ty \<noteq> [] \<longrightarrow>
      find_takeoffs e (build_filter e (q\<lparr>type_q := Some ty\<rparr>)) ts =
        map_sum id
          (filter (\<lambda>t. case projectType t of
                          None \<Rightarrow> False
                        | Some p \<Rightarrow>
                            p \<in> set (map (\<lambda>x. toLowerCase e (trim e x)) (split CHR '','' ty))))
          (find_takeoffs e (build_filter e (q\<lparr>type_q := None\<rparr>)) ts))
   \<and> (ty \<noteq> [] \<and> ty' \<noteq> []
        \<and> list_all2 (\<lambda>x y. toLowerCase e (trim e x) = toLowerCase e (trim e y))
             (split CHR '','' ty) (split CHR '','' ty') \<longrightarrow>
        find_takeoffs e (build_filter e (q\<lparr>type_q := Some ty\<rparr>)) ts =
        find_takeoffs e (build_filter e (q\<lparr>type_q := Some ty'\<rparr>)) ts
        \<and> getAllTakeoffs e (q\<lparr>type_q := Some ty\<rparr>) st =
          getAllTakeoffs e (q\<lparr>type_q := Some ty'\<rparr>) st)
   \<and> (ty \<noteq> [] \<and> (\<forall>t \<in> set ts. \<forall>p. projectType t = Some p \<longrightarrow> toLowerCase e p = p) \<longrightarrow>
        find_takeoffs e (build_filter e (q\<lparr>type_q := Some ty\<rparr>)) ts =
          map_sum id
            (filter (\<lambda>t. case projectType t of
                            None \<Rightarrow> False
                          | Some p \<Rightarrow>
                              (\<exists>x \<in> set (split CHR '','' ty).
                                 toLowerCase e (trim e x) = toLowerCase e p)))
            (find_takeoffs e (build_filter e (q\<lparr>type_q := None\<rparr>)) ts))"
proof -
  have one: "ty \<noteq> [] \<longrightarrow>
      find_takeoffs e (build_filter e (q\<lparr>type_q := Some ty\<rparr>)) ts =
        map_sum id
          (filter (\<lambda>t. case projectType t of
                          None \<Rightarrow> False
                        | Some p \<Rightarrow>
                            p \<in> set (map (\<lambda>x. toLowerCase e (trim e x)) (split CHR '','' ty))))
          (find_takeoffs e (build_filter e (q\<lparr>type_q := None\<rparr>)) ts)"
    by (blast intro: find_takeoffs_type)
  have two: "ty \<noteq> [] \<and> ty' \<noteq> []
        \<and> list_all2 (\<lambda>x y. toLowerCase e (trim e x) = toLowerCase e (trim e y))
             (split CHR '','' ty) (split CHR '','' ty') \<longrightarrow>
        find_takeoffs e (build_filter e (q\<lparr>type_q := Some ty\<rparr>)) ts =
        find_takeoffs e (build_filter e (q\<lparr>type_q := Some ty'\<rparr>)) ts
        \<and> getAllTakeoffs e (q\<lparr>type_q := Some ty\<rparr>) st =
          getAllTakeoffs e (q\<lparr>type_q := Some ty'\<rparr>) st"
  proof (intro impI, elim conjE)
    assume ne: "ty \<noteq> []" "ty' \<noteq> []"
      and same: "list_all2 (\<lambda>x y. toLowerCase e (trim e x) = toLowerCase e (trim e y))
             (split CHR '','' ty) (split CHR '','' ty')"
    from same have "map (\<lambda>x. toLowerCase e (trim e x)) (split CHR '','' ty) =
        map (\<lambda>x. toLowerCase e (trim e x)) (split CHR '','' ty')"
      by (induction rule: list_all2_induct) simp_all
    with ne have f: "build_filter e (q\<lparr>type_q := Some ty\<rparr>) =
        build_filter e (q\<lparr>type_q := Some ty'\<rparr>)"
      by (simp add: build_filter_def truthy_def)
    then show "find_takeoffs e (build_filter e (q\<lparr>type_q := Some ty\<rparr>)) ts =
        find_takeoffs e (build_filter e (q\<lparr>type_q := Some ty'\<rparr>)) ts
        \<and> getAllTakeoffs e (q\<lparr>type_q := Some ty\<rparr>) st =
          getAllTakeoffs e (q\<lparr>type_q := Some ty'\<rparr>) st"
      by (simp add: getAllTakeoffs_def)
  qed
  have three: "ty \<noteq> [] \<and> (\<forall>t \<in> set ts. \<forall>p. projectType t = Some p \<longrightarrow> toLowerCase e p = p)
      \<longrightarrow>
        find_takeoffs e (build_filter e (q\<lparr>type_q := Some ty\<rparr>)) ts =
          map_sum id
            (filter (\<lambda>t. case projectType t of
                            None \<Rightarrow> False
                          | Some p \<Rightarrow>
                              (\<exists>x \<in> set (split CHR '','' ty).
                                 toLowerCase e (trim e x) = toLowerCase e p)))
            (find_takeoffs e (build_filter e (q\<lparr>type_q := None\<rparr>)) ts)"
  proof (intro impI, elim conjE)
    assume ne: "ty \<noteq> []"
      and low: "\<forall>t \<in> set ts. \<forall>p. projectType t = Some p \<longrightarrow> toLowerCase e p = p"
    show "find_takeoffs e (build_filter e (q\<lparr>type_q := Some ty\<rparr>)) ts =
          map_sum id
            (filter (\<lambda>t. case projectType t of
                            None \<Rightarrow> False
                          | Some p \<Rightarrow>
                              (\<exists>x \<in> set (split CHR '','' ty).
                                 toLowerCase e (trim e x) = toLowerCase e p)))
            (find_takeoffs e (build_filter e (q\<lparr>type_q := None\<rparr>)) ts)"
    proof (cases "find_takeoffs e (build_filter e (q\<lparr>type_q := None\<rparr>)) ts")
      case (Inl err)
      with find_takeoffs_type[OF ne, of e q ts] show ?thesis by simp
    next
      case (Inr found)
      from find_takeoffs_subset[OF Inr] low
      have lowf: "\<forall>t \<in> set found. \<forall>p. projectType t = Some p \<longrightarrow> toLowerCase e p = p"
        by blast
      have "filter (\<lambda>t. case projectType t of
                          None \<Rightarrow> False
                        | Some p \<Rightarrow>
                            p \<in> set (map (\<lambda>x. toLowerCase e (trim e x)) (split CHR '','' ty)))
               found =
            filter (\<lambda>t. case projectType t of
                            None \<Rightarrow> False
                          | Some p \<Rightarrow>
                              (\<exists>x \<in> set (split CHR '','' ty).
                                 toLowerCase e (trim e x) = toLowerCase e p))
               found"
      proof (rule filter_cong[OF refl])
        fix t assume t: "t \<in> set found"
        show "(case projectType t of
                 None \<Rightarrow> False
               | Some p \<Rightarrow>
                   p \<in> set (map (\<lambda>x. toLowerCase e (trim e x)) (split CHR '','' ty))) =
              (case projectType t of
                 None \<Rightarrow> False
               | Some p \<Rightarrow>
                   (\<exists>x \<in> set (split CHR '','' ty).
                      toLowerCase e (trim e x) = toLowerCase e p))"
        proof (cases "projectType t")
          case None
          then show ?thesis by simp
        next
          case (Some p)
          with lowf t have "toLowerCase e p = p" by blast
          with Some show ?thesis by auto
        qed
      qed
      with find_takeoffs_type[OF ne, of e q ts] Inr show ?thesis by simp
    qed
  qed
  from one two three show ?thesis by (intro conjI)
qed

lemma demo_type_facts:
  "split CHR '','' ''COMMERCIAL , Industrial'' = [''COMMERCIAL '', '' Industrial'']"
  "split CHR '','' ''commercial,industrial'' = [''commercial'', ''industrial'']"
  "split CHR '','' ''Industrial'' = [''Industrial'']"
  "split CHR '','' ''industrial'' = [''industrial'']"
  "toLowerCase demo_env (trim demo_env ''COMMERCIAL '') = ''commercial''"
  "toLowerCase demo_env (trim demo_env '' Industrial'') = ''industrial''"
  "toLowerCase demo_env (trim demo_env ''commercial'') = ''commercial''"
  "toLowerCase demo_env (trim demo_env ''industrial'') = ''industrial''"
  "toLowerCase demo_env (trim demo_env ''Industrial'') = ''industrial''"
  "toLowerCase demo_env ''commercial'' = ''commercial''"
  "toLowerCase demo_env ''residential'' = ''residential''"
  "toLowerCase demo_env ''industrial'' = ''industrial''"
  by code_simp+

lemma demo_query_fields:
  "page_q demo_query = None" "limit_q demo_query = None" "sort_q demo_query = None"
  by (simp_all add: demo_query_def)

lemma demo_find_types:
  "find_takeoffs demo_env (build_filter demo_env (demo_query\<lparr>type_q := None\<rparr>)) ts = Inr ts"
  by (simp add: find_takeoffs_def build_filter_def demo_query_def truthy_def matches_fields_def)

theorem type_filter_lowered_membership_witness:
  "find_takeoffs demo_env
     (build_filter demo_env (demo_query\<lparr>type_q := Some ''COMMERCIAL , Industrial''\<rparr>))
     (takeoffs demo_store_types) =
       Inr [demo_typed ''x'' ''commercial'', demo_typed ''z'' ''industrial'']
   \<and> find_takeoffs demo_env
     (build_filter demo_env (demo_query\<lparr>type_q := Some ''commercial,industrial''\<rparr>))
     (takeoffs demo_store_types) =
       Inr [demo_typed ''x'' ''commercial'', demo_typed ''z'' ''industrial'']
   \<and> getAllTakeoffs demo_env (demo_query\<lparr>type_q := Some ''COMMERCIAL , Industrial''\<rparr>)
       demo_store_types =
     getAllTakeoffs demo_env (demo_query\<lparr>type_q := Some ''commercial,industrial''\<rparr>)
       demo_store_types"
proof -
  note inst = type_filter_lowered_membership
    [where e = demo_env and q = demo_query and ts = "takeoffs demo_store_types"
       and st = demo_store_types
       and ty = "''COMMERCIAL , Industrial''" and ty' = "''commercial,industrial''"]
  have types: "projectType (demo_typed i ty) = Some ty" for i ty
    by (simp add: demo_typed_def)
  have ne: "''COMMERCIAL , Industrial'' \<noteq> []" "''commercial,industrial'' \<noteq> []" by simp_all
  have low: "\<forall>t \<in> set (takeoffs demo_store_types). \<forall>p. projectType t = Some p \<longrightarrow>
      toLowerCase demo_env p = p"
    by (simp add: demo_store_types_def types demo_type_facts)
  have same: "list_all2 (\<lambda>x y. toLowerCase demo_env (trim demo_env x) =
        toLowerCase demo_env (trim demo_env y))
      (split CHR '','' ''COMMERCIAL , Industrial'') (split CHR '','' ''commercial,industrial'')"
    by (simp only: demo_type_facts list_all2_Cons list_all2_Nil simp_thms)
  have one: "find_takeoffs demo_env
     (build_filter demo_env (demo_query\<lparr>type_q := Some ''COMMERCIAL , Industrial''\<rparr>))
     (takeoffs demo_store_types) =
       Inr [demo_typed ''x'' ''commercial'', demo_typed ''z'' ''industrial'']"
    by (subst inst[THEN conjunct2, THEN conjunct2, rule_format, OF conjI, OF ne(1) low],
        subst demo_find_types, subst demo_type_facts(1))
       (simp add: demo_store_types_def types demo_type_facts)
  from inst ne same
  have two: "find_takeoffs demo_env
       (build_filter demo_env (demo_query\<lparr>type_q := Some ''COMMERCIAL , Industrial''\<rparr>))
       (takeoffs demo_store_types) =
     find_takeoffs demo_env
       (build_filter demo_env (demo_query\<lparr>type_q := Some ''commercial,industrial''\<rparr>))
       (takeoffs demo_store_types)
     \<and> getAllTakeoffs demo_env (demo_query\<lparr>type_q := Some ''COMMERCIAL , Industrial''\<rparr>)
       demo_store_types =
     getAllTakeoffs demo_env (demo_query\<lparr>type_q := Some ''commercial,industrial''\<rparr>)
       demo_store_types"
    by blast
  from one two show ?thesis by simp
qed

text \<open>Claim C3 as stated fails for a stored project type that is not in lower case. With
  a schema that accepts the project type as it is written, a record is created with the
  project type \<^verbatim>\<open>Industrial\<close>; it is then found neither by \<^verbatim>\<open>type=Industrial\<close> nor by
  \<^verbatim>\<open>type=industrial\<close>.\<close>

theorem type_filter_misses_stored_upper_case:
  "createTakeoff demo_env demo_body_upper None demo_empty =
     (\<lparr>status = 201, body = TakeoffBody (new_Takeoff demo_env demo_body_upper [] [])\<rparr>,
      \<lparr>takeoffs = [new_Takeoff demo_env demo_body_upper [] []], users = []\<rparr>,
      [Save ''id9''])
   \<and> projectType (new_Takeoff demo_env demo_body_upper [] []) = Some ''Industrial''
   \<and> getAllTakeoffs demo_env (demo_query\<lparr>type_q := Some ''Industrial''\<rparr>)
       \<lparr>takeoffs = [new_Takeoff demo_env demo_body_upper [] []], users = []\<rparr> =
       \<lparr>status = 200, body = TakeoffsBody []\<rparr>
   \<and> getAllTakeoffs demo_env (demo_query\<lparr>type_q := Some ''industrial''\<rparr>)
       \<lparr>takeoffs = [new_Takeoff demo_env demo_body_upper [] []], users = []\<rparr> =
       \<lparr>status = 200, body = TakeoffsBody []\<rparr>"
proof -
  let ?t = "new_Takeoff demo_env demo_body_upper [] []"
  have created: "createTakeoff demo_env demo_body_upper None demo_empty =
     (\<lparr>status = 201, body = TakeoffBody ?t\<rparr>, \<lparr>takeoffs = [?t], users = []\<rparr>, [Save ''id9''])"
    by (simp add: createTakeoff_def createTakeoff_try_def field_files_def save_def validate_def
        findById_def io_return_def demo_empty_def new_Takeoff_def demo_env_def)
  have ty: "projectType ?t = Some ''Industrial''"
    by (simp add: new_Takeoff_def demo_body_upper_def)
  have f1: "projectType_in (build_filter demo_env (demo_query\<lparr>type_q := Some ''Industrial''\<rparr>))
      = Some [''industrial'']"
    and f2: "projectType_in (build_filter demo_env (demo_query\<lparr>type_q := Some ''industrial''\<rparr>))
      = Some [''industrial'']"
    by (simp_all add: build_filter_def truthy_def demo_type_facts del: split.simps)
  have none: "or_regex (build_filter demo_env demo_query) = None"
    by (simp add: build_filter_def demo_query_def truthy_def)
  have miss: "find_takeoffs demo_env (build_filter demo_env (demo_query\<lparr>type_q := Some v\<rparr>)) [?t]
      = Inr []"
    if "projectType_in (build_filter demo_env (demo_query\<lparr>type_q := Some v\<rparr>))
      = Some [''industrial'']" for v
    using that by (simp add: find_takeoffs_def none matches_fields_def ty)
  have "getAllTakeoffs demo_env (demo_query\<lparr>type_q := Some ''Industrial''\<rparr>)
       \<lparr>takeoffs = [?t], users = []\<rparr> = \<lparr>status = 200, body = TakeoffsBody []\<rparr>"
    and "getAllTakeoffs demo_env (demo_query\<lparr>type_q := Some ''industrial''\<rparr>)
       \<lparr>takeoffs = [?t], users = []\<rparr> = \<lparr>status = 200, body = TakeoffsBody []\<rparr>"
    by (simp_all add: getAllTakeoffs_def miss[OF f1] miss[OF f2] demo_query_fields
        skip_limit_def)
  with created ty show ?thesis by (intro conjI)
qed

section \<open>Free-text search\<close>

lemma matches_fields_search [simp]:
  "matches_fields (build_filter e (q\<lparr>search_q := v\<rparr>)) = matches_fields (build_filter e q)"
  by (rule ext) (simp add: matches_fields_def build_filter_def)

lemma find_takeoffs_search:
  assumes "s \<noteq> []"
  shows "find_takeoffs e (build_filter e (q\<lparr>search_q := Some s\<rparr>)) ts =
     (case regex_of e s ''i'' of
        Inl err \<Rightarrow> Inl err
      | Inr m \<Rightarrow>
          Inr (filter (\<lambda>t. matches_fields (build_filter e q) t
                 \<and> (regex_field m (title t) \<or> regex_field m (description t)
                      \<or> regex_field m (zipCode t))) ts))"
proof -
  from assms have "or_regex (build_filter e (q\<lparr>search_q := Some s\<rparr>)) = Some s"
    by (simp add: build_filter_def truthy_def)
  then show ?thesis by (simp add: find_takeoffs_def split: sum.splits)
qed

text \<open>
  Claim C5, as amended. A non-empty search text is handed to the store, as it is, as the
  pattern of a regular expression with the option \<^verbatim>\<open>i\<close>. A record is included iff it
  meets the other conditions of the query and that expression, as the engine of the store
  reads it, matches somewhere in its title, its description or its postal code; the
  answer is the page of these records. A text that the engine refuses as a pattern is
  answered 500. Where the engine reads the text literally, as it does a text without
  operator characters, this is the test of the claim: the text occurs in one of the three
  fields, letter case aside.
\<close>

theorem search_is_pattern_match:
  "(s \<noteq> [] \<and> regex_of e s ''i'' = Inr m \<longrightarrow>
      find_takeoffs e (build_filter e (q\<lparr>search_q := Some s\<rparr>)) ts =
        Inr (filter (\<lambda>t. matches_fields (build_filter e q) t
               \<and> (regex_field m (title t) \<or> regex_field m (description t)
                    \<or> regex_field m (zipCode t))) ts))
   \<and> (s \<noteq> [] \<and> regex_of e s ''i'' = Inr m
        \<and> page = (case page_q q of None \<Rightarrow> 1 | Some n \<Rightarrow> n)
        \<and> limit = (case limit_q q of None \<Rightarrow> 9 | Some n \<Rightarrow> n) \<longrightarrow>
      getAllTakeoffs e (q\<lparr>search_q := Some s\<rparr>) st =
        (case skip_limit ((page - 1) * limit) limit
                (sort_takeoffs (sort_option_of (sort_q q))
                   (filter (\<lambda>t. matches_fields (build_filter e q) t
                      \<and> (regex_field m (title t) \<or> regex_field m (description t)
                           \<or> regex_field m (zipCode t))) (takeoffs st))) of
           Inl err \<Rightarrow> \<lparr>status = 500, body = ErrorBody (message err)\<rparr>
         | Inr found \<Rightarrow> \<lparr>status = 200, body = TakeoffsBody (map (populate st) found)\<rparr>))
   \<and> (s \<noteq> [] \<and> regex_of e s ''i'' = Inl err \<longrightarrow>
        find_takeoffs e (build_filter e (q\<lparr>search_q := Some s\<rparr>)) ts = Inl err
        \<and> status (getAllTakeoffs e (q\<lparr>search_q := Some s\<rparr>) st) = 500)
   \<and> (s \<noteq> [] \<and> regex_of e s ''i'' = Inr m
        \<and> (\<forall>x. m x \<longleftrightarrow> sublist (toLowerCase e s) (toLowerCase e x)) \<longrightarrow>
      find_takeoffs e (build_filter e (q\<lparr>search_q := Some s\<rparr>)) ts =
        Inr (filter (\<lambda>t. matches_fields (build_filter e q) t
               \<and> (contains_ci e s (title t) \<or> contains_ci e s (description t)
                    \<or> contains_ci e s (zipCode t))) ts))"
proof -
  have found: "s \<noteq> [] \<and> regex_of e s ''i'' = Inr m \<longrightarrow>
      find_takeoffs e (build_filter e (q\<lparr>search_q := Some s\<rparr>)) ts =
        Inr (filter (\<lambda>t. matches_fields (build_filter e q) t
               \<and> (regex_field m (title t) \<or> regex_field m (description t)
                    \<or> regex_field m (zipCode t))) ts)" for ts
    by (simp add: find_takeoffs_search)
  have answer: "s \<noteq> [] \<and> regex_of e s ''i'' = Inr m
        \<and> page = (case page_q q of None \<Rightarrow> 1 | Some n \<Rightarrow> n)
        \<and> limit = (case limit_q q of None \<Rightarrow> 9 | Some n \<Rightarrow> n) \<longrightarrow>
      getAllTakeoffs e (q\<lparr>search_q := Some s\<rparr>) st =
        (case skip_limit ((page - 1) * limit) limit
                (sort_takeoffs (sort_option_of (sort_q q))
                   (filter (\<lambda>t. matches_fields (build_filter e q) t
                      \<and> (regex_field m (title t) \<or> regex_field m (description t)
                           \<or> regex_field m (zipCode t))) (takeoffs st))) of
           Inl err \<Rightarrow> \<lparr>status = 500, body = ErrorBody (message err)\<rparr>
         | Inr found \<Rightarrow> \<lparr>status = 200, body = TakeoffsBody (map (populate st) found)\<rparr>)"
    using found[of "takeoffs st"] by (simp add: getAllTakeoffs_def Let_def)
  have refused: "s \<noteq> [] \<and> regex_of e s ''i'' = Inl err \<longrightarrow>
        find_takeoffs e (build_filter e (q\<lparr>search_q := Some s\<rparr>)) ts = Inl err
        \<and> status (getAllTakeoffs e (q\<lparr>search_q := Some s\<rparr>) st) = 500"
    by (simp add: find_takeoffs_search getAllTakeoffs_def Let_def)
  have literal: "s \<noteq> [] \<and> regex_of e s ''i'' = Inr m
        \<and> (\<forall>x. m x \<longleftrightarrow> sublist (toLowerCase e s) (toLowerCase e x)) \<longrightarrow>
      find_takeoffs e (build_filter e (q\<lparr>search_q := Some s\<rparr>)) ts =
        Inr (filter (\<lambda>t. matches_fields (build_filter e q) t
               \<and> (contains_ci e s (title t) \<or> contains_ci e s (description t)
                    \<or> contains_ci e s (zipCode t))) ts)"
  proof (intro impI, elim conjE)
    assume ne: "s \<noteq> []" and m: "regex_of e s ''i'' = Inr m"
      and lit: "\<forall>x. m x \<longleftrightarrow> sublist (toLowerCase e s) (toLowerCase e x)"
    have "regex_field m v = contains_ci e s v" for v
      using lit by (cases v) (simp_all add: regex_field_def contains_ci_def)
    with found[of ts] ne m
    show "find_takeoffs e (build_filter e (q\<lparr>search_q := Some s\<rparr>)) ts =
        Inr (filter (\<lambda>t. matches_fields (build_filter e q) t
               \<and> (contains_ci e s (title t) \<or> contains_ci e s (description t)
                    \<or> contains_ci e s (zipCode t))) ts)"
      by simp
  qed
  from found[of ts] answer refused literal show ?thesis by (intro conjI)
qed

lemma demo_rx_compile_plain:
  "\<forall>c \<in> set s. c \<notin> set demo_rx_operators \<and> c \<noteq> CHR ''.'' \<Longrightarrow>
   demo_rx_compile s = Some (map RxChar s)"
  by (induction s) auto

lemma demo_rx_match_here_plain:
  "demo_rx_match_here True (map RxChar s) x \<longleftrightarrow>
     prefix (demo_toLowerCase s) (demo_toLowerCase x)"
proof (induction s arbitrary: x)
  case Nil
  then show ?case by (simp add: demo_toLowerCase_def)
next
  case (Cons d s)
  then show ?case by (cases x) (auto simp: demo_toLowerCase_def)
qed

lemma demo_rx_search_plain:
  "demo_rx_search True (map RxChar s) x \<longleftrightarrow>
     sublist (demo_toLowerCase s) (demo_toLowerCase x)"
proof (induction x)
  case Nil
  then show ?case by (cases s) (simp_all add: demo_toLowerCase_def)
next
  case (Cons c x)
  have "demo_toLowerCase (c # x) = demo_lower_char c # demo_toLowerCase x"
    by (simp add: demo_toLowerCase_def)
  with Cons show ?case
    by (simp add: sublist_Cons_right demo_rx_match_here_plain)
qed

lemma demo_regex_plain:
  assumes "\<forall>c \<in> set s. c \<notin> set demo_rx_operators \<and> c \<noteq> CHR ''.''"
  shows "regex_of demo_env s ''i'' = Inr (demo_rx_search True (map RxChar s))"
    and "demo_rx_search True (map RxChar s) x \<longleftrightarrow>
      sublist (toLowerCase demo_env s) (toLowerCase demo_env x)"
  using demo_rx_compile_plain[OF assms]
  by (simp_all add: demo_env_def demo_regex_def demo_rx_search_plain)

lemma demo_search_facts:
  "\<forall>c \<in> set ''AB''. c \<notin> set demo_rx_operators \<and> c \<noteq> CHR ''.''"
  "contains_ci demo_env ''AB'' (Some ''abc'')"
  "\<not> contains_ci demo_env ''a.c'' (Some ''abc'')"
  "\<not> contains_ci demo_env ''a.c'' (Some ''12345'')"
  "\<not> contains_ci demo_env ''a.c'' None"
  "demo_rx_compile ''a.c'' = Some [RxChar CHR ''a'', RxAny, RxChar CHR ''c'']"
  "demo_rx_compile ''('' = None"
  "demo_rx_search True [RxChar CHR ''a'', RxAny, RxChar CHR ''c''] ''abc''"
  "\<not> demo_rx_search True [RxChar CHR ''a'', RxAny, RxChar CHR ''c''] ''12345''"
  by code_simp+

lemma demo_regex_dot:
  "regex_of demo_env ''a.c'' ''i'' =
     Inr (demo_rx_search True [RxChar CHR ''a'', RxAny, RxChar CHR ''c''])"
  "regex_of demo_env ''('' ''i'' = Inl (OtherError ''Regular expression is invalid'')"
  by (simp_all add: demo_env_def demo_regex_def demo_search_facts del: demo_rx_compile.simps)

lemma demo_fields:
  "title demo_takeoff = Some ''abc''" "description demo_takeoff = None"
  "zipCode demo_takeoff = Some ''12345''"
  by (simp_all add: demo_takeoff_def)

lemma demo_matches_all: "matches_fields (build_filter e demo_query) t"
  by (simp add: matches_fields_def build_filter_def demo_query_def truthy_def)

lemma demo_regex_hits:
  "regex_field (demo_rx_search True [RxChar CHR ''a'', RxAny, RxChar CHR ''c'']) (title demo_takeoff)"
  by (simp only: demo_fields regex_field_def option.case demo_search_facts)

theorem search_is_pattern_match_witness:
  "find_takeoffs demo_env (build_filter demo_env (demo_query\<lparr>search_q := Some ''a.c''\<rparr>))
     (takeoffs demo_store) = Inr [demo_takeoff]
   \<and> getAllTakeoffs demo_env (demo_query\<lparr>search_q := Some ''a.c''\<rparr>) demo_store =
       \<lparr>status = 200, body = TakeoffsBody [demo_takeoff]\<rparr>
   \<and> status (getAllTakeoffs demo_env (demo_query\<lparr>search_q := Some ''(''\<rparr>) demo_store) = 500
   \<and> find_takeoffs demo_env (build_filter demo_env (demo_query\<lparr>search_q := Some ''AB''\<rparr>))
       (takeoffs demo_store) = Inr [demo_takeoff]"
proof -
  have ne: "''a.c'' \<noteq> []" "''('' \<noteq> []" by simp_all
  note inst = search_is_pattern_match
    [where e = demo_env and s = "''a.c''" and q = demo_query and ts = "takeoffs demo_store"
       and st = demo_store and page = 1 and limit = 9
       and m = "demo_rx_search True [RxChar CHR ''a'', RxAny, RxChar CHR ''c'']"]
  have pl: "(1::int) = (case page_q demo_query of None \<Rightarrow> 1 | Some n \<Rightarrow> n)"
    "(9::int) = (case limit_q demo_query of None \<Rightarrow> 9 | Some n \<Rightarrow> n)"
    by (simp_all add: demo_query_def)
  have flt: "filter (\<lambda>t. matches_fields (build_filter demo_env demo_query) t
               \<and> (regex_field (demo_rx_search True [RxChar CHR ''a'', RxAny, RxChar CHR ''c''])
                     (title t)
                   \<or> regex_field (demo_rx_search True [RxChar CHR ''a'', RxAny, RxChar CHR ''c''])
                     (description t)
                   \<or> regex_field (demo_rx_search True [RxChar CHR ''a'', RxAny, RxChar CHR ''c''])
                     (zipCode t))) (takeoffs demo_store) = [demo_takeoff]"
    by (simp add: demo_store_def demo_matches_all demo_regex_hits)
  from inst[THEN conjunct1] ne(1) demo_regex_dot(1)
  have one: "find_takeoffs demo_env (build_filter demo_env (demo_query\<lparr>search_q := Some ''a.c''\<rparr>))
     (takeoffs demo_store) = Inr [demo_takeoff]"
    by (simp only: flt simp_thms)
  from inst[THEN conjunct2, THEN conjunct1] ne(1) demo_regex_dot(1) pl
  have "getAllTakeoffs demo_env (demo_query\<lparr>search_q := Some ''a.c''\<rparr>) demo_store =
        (case skip_limit ((1 - 1) * 9) 9
                (sort_takeoffs (sort_option_of (sort_q demo_query)) [demo_takeoff]) of
           Inl err \<Rightarrow> \<lparr>status = 500, body = ErrorBody (message err)\<rparr>
         | Inr found \<Rightarrow> \<lparr>status = 200, body = TakeoffsBody (map (populate demo_store) found)\<rparr>)"
    by (simp only: flt simp_thms)
  then have two: "getAllTakeoffs demo_env (demo_query\<lparr>search_q := Some ''a.c''\<rparr>) demo_store =
       \<lparr>status = 200, body = TakeoffsBody [demo_takeoff]\<rparr>"
    by (simp add: skip_limit_def demo_query_def sort_option_of_def populate_demo_takeoff)
  from search_is_pattern_match
    [where e = demo_env and s = "''(''" and q = demo_query and st = demo_store
       and err = "OtherError ''Regular expression is invalid''"]
    ne(2) demo_regex_dot(2)
  have three: "status (getAllTakeoffs demo_env (demo_query\<lparr>search_q := Some ''(''\<rparr>) demo_store)
      = 500"
    by blast
  have ab: "''AB'' \<noteq> []" by simp
  from search_is_pattern_match
    [where e = demo_env and s = "''AB''" and q = demo_query and ts = "takeoffs demo_store"
       and m = "demo_rx_search True (map RxChar ''AB'')"]
    ab demo_regex_plain[OF demo_search_facts(1)]
  have "find_takeoffs demo_env (build_filter demo_env (demo_query\<lparr>search_q := Some ''AB''\<rparr>))
       (takeoffs demo_store) =
     Inr (filter (\<lambda>t. matches_fields (build_filter demo_env demo_query) t
            \<and> (contains_ci demo_env ''AB'' (title t) \<or> contains_ci demo_env ''AB'' (description t)
                 \<or> contains_ci demo_env ''AB'' (zipCode t))) (takeoffs demo_store))"
    by blast
  then have four: "find_takeoffs demo_env
       (build_filter demo_env (demo_query\<lparr>search_q := Some ''AB''\<rparr>))
       (takeoffs demo_store) = Inr [demo_takeoff]"
    by (simp add: demo_store_def demo_matches_all demo_fields demo_search_facts)
  from one two three four show ?thesis by (intro conjI)
qed

text \<open>Claim C5 as stated fails: the search text \<^verbatim>\<open>a.c\<close> occurs in none of the three
  fields of the record, and the record is included, because the dot of the pattern
  stands for any character.\<close>

theorem search_dot_matches_any_character:
  "getAllTakeoffs demo_env (demo_query\<lparr>search_q := Some ''a.c''\<rparr>) demo_store =
     \<lparr>status = 200, body = TakeoffsBody [demo_takeoff]\<rparr>
   \<and> \<not> contains_ci demo_env ''a.c'' (title demo_takeoff)
   \<and> \<not> contains_ci demo_env ''a.c'' (description demo_takeoff)
   \<and> \<not> contains_ci demo_env ''a.c'' (zipCode demo_takeoff)"
proof -
  have ne: "''a.c'' \<noteq> []" by simp
  have "find_takeoffs demo_env (build_filter demo_env (demo_query\<lparr>search_q := Some ''a.c''\<rparr>))
      (takeoffs demo_store) = Inr [demo_takeoff]"
    by (subst find_takeoffs_search[OF ne], subst demo_regex_dot(1))
       (simp add: demo_store_def demo_matches_all demo_regex_hits)
  then have "getAllTakeoffs demo_env (demo_query\<lparr>search_q := Some ''a.c''\<rparr>) demo_store =
     \<lparr>status = 200, body = TakeoffsBody [demo_takeoff]\<rparr>"
    by (simp add: getAllTakeoffs_def skip_limit_def demo_query_def sort_option_of_def
        populate_demo_takeoff)
  then show ?thesis
    by (simp add: demo_fields demo_search_facts)
qed

end
